theory Spec2Isabelle
  imports Main
begin

section \<open>Data model\<close>

text \<open>
  The program is a JavaScript sync engine between a local SQLite database (expo-sqlite)
  and a remote Supabase (Postgres) database. Both stores are relational; a row is a
  JavaScript object, modelled as an association list from column names to values, keys
  in insertion order (the order \<open>Object.keys\<close> enumerates them). A key that is absent
  from the list is \<open>undefined\<close> in the source.
\<close>

datatype val = VNull | VInt int | VStr string

type_synonym row = "(string \<times> val) list"

text \<open>\<open>record.id\<close>: identifiers are integers in both stores (\<open>INTEGER PRIMARY KEY\<close> locally,
  \<open>SERIAL\<close> remotely); a missing or null id reads as \<open>None\<close>.\<close>

definition row_id :: "row \<Rightarrow> int option" where
  "row_id r = (case map_of r ''id'' of Some (VInt i) \<Rightarrow> Some i | _ \<Rightarrow> None)"

text \<open>
  A table of either store: its columns, its primary key, its \<open>NOT NULL\<close> columns, its rows
  in rowid order, and the largest identifier handed out so far (\<open>sqlite_sequence\<close> for an
  \<open>AUTOINCREMENT\<close> key, the sequence of a \<open>SERIAL\<close> column).
\<close>

record table =
  columns :: "string list"
  pkey :: "string list"
  not_null :: "string list"
  rows :: "row list"
  seq_no :: int

text \<open>JavaScript exceptions and Supabase error objects carry a message.\<close>

datatype exn = Exn string

fun message :: "exn \<Rightarrow> string" where
  "message (Exn m) = m"

text \<open>
  One row of \<open>sync_metadata\<close>, unique per \<open>(table_name, record_id)\<close>. The column
  \<open>supabase_id\<close> has type \<open>TEXT\<close>: a numeric identifier written to it is read back as a
  non-empty decimal string, which is truthy in JavaScript whatever the number, so the
  source's test \<open>if (change.supabase_id)\<close> is the test for a non-null value. The
  autoincrement \<open>id\<close> of the row is never read by the program and is left out; the list of
  rows is kept in rowid order.
\<close>

datatype status = Pending | Synced | Error

record meta =
  table_name :: string
  record_id :: int
  sync_status :: status
  supabase_id :: "int option"
  last_modified :: nat
  created_at :: nat
  updated_at :: nat

record log_entry =
  sync_type :: string
  log_status :: string
  log_message :: string
  records_synced :: nat
  error_details :: "string option"
  started_at :: nat
  completed_at :: nat

text \<open>\<open>SYNC_CONFIG.SYNC_STATUS\<close>, the phases published to the listeners.\<close>

datatype phase = IDLE | SYNCING | SUCCESS | ERROR

text \<open>Every statement sent to the local store and every request sent to the remote store
  is recorded, in order, with its kind and its table.\<close>

datatype store_op = Sql string string | Request string string

text \<open>
  The environment of one call: what the outside world answers.
  \<^item> \<open>open_fault n\<close>: the error of the \<open>n\<close>-th attempt to open the local database, if it fails;
  \<^item> \<open>remote_fault n\<close>: the error the remote store answers to the \<open>n\<close>-th request, if any
    (network failure, policy or constraint rejection);
  \<^item> \<open>configured\<close>: the answer of \<open>isSupabaseConfigured()\<close>;
  \<^item> \<open>BATCH_SIZE\<close>: the constant \<open>SYNC_CONFIG.BATCH_SIZE\<close>;
  \<^item> \<open>now\<close>: the reading of the clock (\<open>CURRENT_TIMESTAMP\<close>, \<open>new Date()\<close>).

  The module that exports \<open>supabase\<close>, \<open>isSupabaseConfigured\<close> and \<open>SYNC_CONFIG\<close> is not
  among the sources, so its constants are parameters: \<open>configured\<close> and \<open>BATCH_SIZE\<close>
  here, \<open>SYNC_CONFIG.TABLES\<close> in the state below. A local statement fails for what the
  schema and the data decide (a missing table or column, a key or \<open>NOT NULL\<close>
  constraint); the only failure that comes from outside is that the database cannot be
  opened.
\<close>

record env =
  open_fault :: "nat \<Rightarrow> exn option"
  remote_fault :: "nat \<Rightarrow> exn option"
  configured :: bool
  BATCH_SIZE :: nat
  now :: nat

text \<open>
  The state the program reads and writes: the module variable \<open>db\<close> of the database
  module (\<open>True\<close>: a handle is held), the local tables, the two sync tables (\<open>None\<close>: the
  table is not there, as after an initialisation that could not create it), the remote tables, the
  fields of the \<open>SyncService\<close> singleton, and the array \<open>SYNC_CONFIG.TABLES\<close>, which is an
  ordinary mutable JavaScript array. \<open>trace\<close> and \<open>notifications\<close> record what was sent
  to the stores and to the listeners.
\<close>

record world =
  db :: bool
  opens :: nat
  tables :: "string \<Rightarrow> table option"
  sync_metadata :: "meta list option"
  sync_log :: "log_entry list option"
  remote_tables :: "string \<Rightarrow> table option"
  requests :: nat
  isOnline :: bool
  syncInProgress :: bool
  lastSyncTime :: "nat option"
  TABLES :: "string list"
  trace :: "store_op list"
  notifications :: "(phase \<times> string) list"

section \<open>Control flow: results, exceptions, try and catch\<close>

text \<open>An asynchronous function either resolves to a value or rejects with an exception,
  and leaves a new state in both cases.\<close>

type_synonym 'a io = "world \<Rightarrow> (exn + 'a) \<times> world"

definition returnIO :: "'a \<Rightarrow> 'a io" where
  "returnIO x w = (Inr x, w)"

definition throwIO :: "exn \<Rightarrow> 'a io" where
  "throwIO e w = (Inl e, w)"

definition bindIO :: "'a io \<Rightarrow> ('a \<Rightarrow> 'b io) \<Rightarrow> 'b io" where
  "bindIO m f w = (case m w of (Inl e, w1) \<Rightarrow> (Inl e, w1) | (Inr x, w1) \<Rightarrow> f x w1)"

definition catchIO :: "'a io \<Rightarrow> (exn \<Rightarrow> 'a io) \<Rightarrow> 'a io" where
  "catchIO m h w = (case m w of (Inl e, w1) \<Rightarrow> h e w1 | (Inr x, w1) \<Rightarrow> (Inr x, w1))"

definition log_op :: "store_op \<Rightarrow> world \<Rightarrow> world" where
  "log_op x w = w\<lparr>trace := trace w @ [x]\<rparr>"

section \<open>Tables and statements\<close>

text \<open>
  \<open>WHERE c1 = ? AND c2 = ?\<close>: a row matches when each named column holds the given
  value; a null or undefined parameter matches nothing, as SQL's \<open>=\<close> on \<open>NULL\<close>.
\<close>

definition matches :: "(string \<times> val) list \<Rightarrow> row \<Rightarrow> bool" where
  "matches conds r = list_all (\<lambda>(c, v). v \<noteq> VNull \<and> map_of r c = Some v) conds"

definition known_columns :: "table \<Rightarrow> string list \<Rightarrow> bool" where
  "known_columns T cs = list_all (\<lambda>c. c \<in> set (columns T)) cs"

text \<open>\<open>SET c = v\<close> on one row: the key keeps its place, a new key is appended.\<close>

fun assign :: "('k \<times> 'v) list \<Rightarrow> 'k \<times> 'v \<Rightarrow> ('k \<times> 'v) list" where
  "assign [] (c, v) = [(c, v)]"
| "assign ((k, u) # r) (c, v) = (if k = c then (k, v) # r else (k, u) # assign r (c, v))"

definition violates_not_null :: "table \<Rightarrow> row \<Rightarrow> bool" where
  "violates_not_null T r =
     list_ex (\<lambda>c. map_of r c = None \<or> map_of r c = Some VNull) (not_null T)"

definition same_key :: "table \<Rightarrow> row \<Rightarrow> row \<Rightarrow> bool" where
  "same_key T r r' = list_all (\<lambda>c. map_of r c = map_of r' c) (pkey T)"

definition tbl_select :: "table \<Rightarrow> (string \<times> val) list \<Rightarrow> exn + row list" where
  "tbl_select T conds =
     (if known_columns T (map fst conds) then Inr (filter (matches conds) (rows T))
      else Inl (Exn ''no such column''))"

text \<open>\<open>DELETE FROM t WHERE ...\<close>: the new table and the number of rows deleted.\<close>

definition tbl_delete :: "table \<Rightarrow> (string \<times> val) list \<Rightarrow> exn + table \<times> nat" where
  "tbl_delete T conds =
     (if known_columns T (map fst conds)
      then Inr (T\<lparr>rows := filter (\<lambda>r. \<not> matches conds r) (rows T)\<rparr>,
                length (filter (matches conds) (rows T)))
      else Inl (Exn ''no such column''))"

text \<open>\<open>UPDATE t SET ... WHERE ...\<close>: the new table and the rows changed.\<close>

definition tbl_update ::
  "table \<Rightarrow> (string \<times> val) list \<Rightarrow> (string \<times> val) list \<Rightarrow> exn + table \<times> row list" where
  "tbl_update T sets conds =
     (if \<not> known_columns T (map fst sets @ map fst conds) then Inl (Exn ''no such column'')
      else if list_ex (\<lambda>r. matches conds r \<and> violates_not_null T (foldl assign r sets)) (rows T)
      then Inl (Exn ''NOT NULL constraint failed'')
      else Inr (T\<lparr>rows := map (\<lambda>r. if matches conds r then foldl assign r sets else r) (rows T)\<rparr>,
                map (\<lambda>r. foldl assign r sets) (filter (matches conds) (rows T))))"

text \<open>
  How a table keyed by \<open>id\<close> hands out identifiers. SQLite's \<open>AUTOINCREMENT\<close> gives one
  more than the largest identifier ever in the table, and remembers an identifier that a
  row brought along. Postgres's \<open>SERIAL\<close> gives the next value of its sequence, whatever
  the table holds, and the sequence moves on even when the insertion fails.
\<close>

datatype id_policy = Autoincrement | Serial

fun fresh :: "id_policy \<Rightarrow> table \<Rightarrow> int" where
  "fresh Autoincrement T = foldr max (List.map_filter row_id (rows T)) (seq_no T) + 1"
| "fresh Serial T = seq_no T + 1"

definition assigns_id :: "table \<Rightarrow> row \<Rightarrow> bool" where
  "assigns_id T r = (pkey T = [''id''] \<and> row_id r = None)"

definition with_id :: "id_policy \<Rightarrow> table \<Rightarrow> row \<Rightarrow> row" where
  "with_id p T r =
     (if assigns_id T r
      then (''id'', VInt (fresh p T)) # filter (\<lambda>(k, v). k \<noteq> ''id'') r else r)"

definition advance :: "id_policy \<Rightarrow> table \<Rightarrow> row \<Rightarrow> table" where
  "advance p T r =
     (if assigns_id T r then T\<lparr>seq_no := fresh p T\<rparr>
      else (case (p, row_id r) of
              (Autoincrement, Some i) \<Rightarrow> (if pkey T = [''id''] then T\<lparr>seq_no := max (seq_no T) i\<rparr> else T)
            | _ \<Rightarrow> T))"

text \<open>
  \<open>INSERT INTO t (...) VALUES (...)\<close>: the row as stored and the new table; \<open>None\<close> for the
  row when \<open>ignore\<close> is set and a constraint stood in the way (\<open>INSERT OR IGNORE\<close>). On
  an error the table is unchanged, except that a \<open>SERIAL\<close> sequence has moved on.
\<close>

definition tbl_insert ::
  "id_policy \<Rightarrow> bool \<Rightarrow> table \<Rightarrow> row \<Rightarrow> (exn + row option) \<times> table" where
  "tbl_insert p ignore T r =
     (let r1 = with_id p T r;
          T0 = (if p = Serial then advance p T r else T)
      in if \<not> known_columns T (map fst r) then (Inl (Exn ''no such column''), T)
         else if violates_not_null T r1 then
           (if ignore then (Inr None, T0) else (Inl (Exn ''NOT NULL constraint failed''), T0))
         else if list_ex (same_key T r1) (rows T) then
           (if ignore then (Inr None, T0) else (Inl (Exn ''UNIQUE constraint failed''), T0))
         else (Inr (Some r1), (advance p T r)\<lparr>rows := rows T @ [r1]\<rparr>))"

subsection \<open>Statements on the local store\<close>

text \<open>Each statement is recorded in the trace; a statement on a table that does not exist
  throws.\<close>

definition local_table :: "string \<Rightarrow> string \<Rightarrow> table io" where
  "local_table kind t w =
     (case tables w t of
        None \<Rightarrow> (Inl (Exn (''no such table: '' @ t)), log_op (Sql kind t) w)
      | Some T \<Rightarrow> (Inr T, log_op (Sql kind t) w))"

definition liftE :: "exn + 'a \<Rightarrow> 'a io" where
  "liftE x w = (x, w)"

definition store_table :: "string \<Rightarrow> table \<Rightarrow> world \<Rightarrow> world" where
  "store_table t T w = w\<lparr>tables := (tables w)(t := Some T)\<rparr>"

text \<open>\<open>db.getAllAsync('SELECT * FROM t WHERE ...')\<close>\<close>

definition sql_select :: "string \<Rightarrow> (string \<times> val) list \<Rightarrow> row list io" where
  "sql_select t conds = bindIO (local_table ''SELECT'' t) (\<lambda>T. liftE (tbl_select T conds))"

text \<open>\<open>db.getFirstAsync\<close>: the first row of the answer, or null.\<close>

definition sql_first :: "string \<Rightarrow> (string \<times> val) list \<Rightarrow> row option io" where
  "sql_first t conds =
     bindIO (sql_select t conds) (\<lambda>rs. returnIO (case rs of [] \<Rightarrow> None | r # _ \<Rightarrow> Some r))"

text \<open>\<open>db.runAsync('DELETE FROM t WHERE ...')\<close>, resolving to \<open>changes\<close>.\<close>

definition sql_delete :: "string \<Rightarrow> (string \<times> val) list \<Rightarrow> nat io" where
  "sql_delete t conds =
     bindIO (local_table ''DELETE'' t) (\<lambda>T.
     bindIO (liftE (tbl_delete T conds)) (\<lambda>(T1, n) w. (Inr n, store_table t T1 w)))"

text \<open>\<open>db.runAsync('UPDATE t SET ... WHERE ...')\<close>, resolving to \<open>changes\<close>.\<close>

definition sql_update :: "string \<Rightarrow> (string \<times> val) list \<Rightarrow> (string \<times> val) list \<Rightarrow> nat io" where
  "sql_update t sets conds =
     bindIO (local_table ''UPDATE'' t) (\<lambda>T.
     bindIO (liftE (tbl_update T sets conds)) (\<lambda>(T1, rs) w. (Inr (length rs), store_table t T1 w)))"

text \<open>\<open>db.runAsync('INSERT [OR IGNORE] INTO t (...) VALUES (...)')\<close>, resolving to the row as
  stored (\<open>None\<close> when the insertion was ignored); \<open>lastInsertRowId\<close> is its id.\<close>

definition sql_insert_row :: "bool \<Rightarrow> string \<Rightarrow> row \<Rightarrow> row option io" where
  "sql_insert_row ignore t r =
     bindIO (local_table ''INSERT'' t) (\<lambda>T w.
       (case tbl_insert Autoincrement ignore T r of
          (Inl x, T1) \<Rightarrow> (Inl x, store_table t T1 w)
        | (Inr stored, T1) \<Rightarrow> (Inr stored, store_table t T1 w)))"

definition sql_insert :: "bool \<Rightarrow> string \<Rightarrow> row \<Rightarrow> unit io" where
  "sql_insert ignore t r = bindIO (sql_insert_row ignore t r) (\<lambda>_. returnIO ())"

definition lastInsertRowId :: "row option \<Rightarrow> int" where
  "lastInsertRowId stored =
     (case stored of
        Some r \<Rightarrow> (case row_id r of Some i \<Rightarrow> i | None \<Rightarrow> 0)
      | None \<Rightarrow> 0)"

text \<open>\<open>PRAGMA table_info(t)\<close>: the column names; no rows, and no error, for a table that
  does not exist.\<close>

definition sql_table_info :: "string \<Rightarrow> string list io" where
  "sql_table_info t w =
     (Inr (case tables w t of None \<Rightarrow> [] | Some T \<Rightarrow> columns T), log_op (Sql ''PRAGMA'' t) w)"

subsection \<open>Requests to the remote store\<close>

text \<open>
  A Supabase request resolves to \<open>{ data, error }\<close> and does not throw: the model
  returns the error as a value (\<open>Inl\<close>), and the caller throws it where the source does.
  A request fails when the environment says so, or when the remote table or column does
  not exist, or when the statement breaks a key; otherwise it has its effect on the
  remote table. Foreign keys and column defaults of the remote schema are not modelled:
  a rejection they cause is one of the environment's errors.
\<close>

definition request :: "env \<Rightarrow> string \<Rightarrow> string \<Rightarrow> (table \<Rightarrow> (exn + 'a) \<times> table)
    \<Rightarrow> world \<Rightarrow> (exn + 'a) \<times> world" where
  "request e kind t f w =
     (let w1 = (log_op (Request kind t) w)\<lparr>requests := Suc (requests w)\<rparr>
      in case remote_fault e (requests w) of
           Some x \<Rightarrow> (Inl x, w1)
         | None \<Rightarrow>
             (case remote_tables w t of
                None \<Rightarrow> (Inl (Exn (''relation does not exist: '' @ t)), w1)
              | Some T \<Rightarrow>
                  (case f T of (res, T1) \<Rightarrow> (res, w1\<lparr>remote_tables := (remote_tables w1)(t := Some T1)\<rparr>))))"

text \<open>\<open>supabase.from(t).select('*')\<close>\<close>

definition remote_select_all :: "env \<Rightarrow> string \<Rightarrow> world \<Rightarrow> (exn + row list) \<times> world" where
  "remote_select_all e t = request e ''select'' t (\<lambda>T. (Inr (rows T), T))"

text \<open>\<open>.single()\<close>: an error unless exactly one row answers.\<close>

fun single :: "row list \<Rightarrow> exn + row" where
  "single [r] = Inr r"
| "single _ = Inl (Exn ''JSON object requested, multiple (or no) rows returned'')"

text \<open>\<open>supabase.from(t).select('id').eq('id', i).single()\<close>\<close>

definition remote_select_single :: "env \<Rightarrow> string \<Rightarrow> int option \<Rightarrow> world \<Rightarrow> (exn + row) \<times> world" where
  "remote_select_single e t i =
     request e ''select'' t (\<lambda>T.
       case tbl_select T [(''id'', case i of Some n \<Rightarrow> VInt n | None \<Rightarrow> VNull)] of
         Inl x \<Rightarrow> (Inl x, T)
       | Inr rs \<Rightarrow> (single rs, T))"

text \<open>\<open>supabase.from(t).insert(data).select().single()\<close>\<close>

definition remote_insert :: "env \<Rightarrow> string \<Rightarrow> row \<Rightarrow> world \<Rightarrow> (exn + row) \<times> world" where
  "remote_insert e t d =
     request e ''insert'' t (\<lambda>T.
       case tbl_insert Serial False T d of
         (Inl x, T1) \<Rightarrow> (Inl x, T1)
       | (Inr None, T1) \<Rightarrow> (single [], T1)
       | (Inr (Some r), T1) \<Rightarrow> (Inr r, T1))"

text \<open>\<open>supabase.from(t).update(data).eq('id', i).select().single()\<close>\<close>

definition remote_update :: "env \<Rightarrow> string \<Rightarrow> row \<Rightarrow> int \<Rightarrow> world \<Rightarrow> (exn + row) \<times> world" where
  "remote_update e t d i =
     request e ''update'' t (\<lambda>T.
       case tbl_update T d [(''id'', VInt i)] of
         Inl x \<Rightarrow> (Inl x, T)
       | Inr (T1, rs) \<Rightarrow> (single rs, T1))"

text \<open>\<open>supabase.from(t).delete().eq('id', i)\<close>\<close>

definition remote_delete :: "env \<Rightarrow> string \<Rightarrow> int \<Rightarrow> world \<Rightarrow> (exn + unit) \<times> world" where
  "remote_delete e t i =
     request e ''delete'' t (\<lambda>T.
       case tbl_delete T [(''id'', VInt i)] of
         Inl x \<Rightarrow> (Inl x, T)
       | Inr (T1, _) \<Rightarrow> (Inr (), T1))"

text \<open>\<open>supabase.from(t).delete().neq('id', 0)\<close>: every row whose id is neither 0 nor
  null.\<close>

definition remote_delete_all :: "env \<Rightarrow> string \<Rightarrow> world \<Rightarrow> (exn + unit) \<times> world" where
  "remote_delete_all e t =
     request e ''delete'' t (\<lambda>T.
       if ''id'' \<in> set (columns T)
       then (Inr (), T\<lparr>rows := filter (\<lambda>r. row_id r = Some 0 \<or> row_id r = None) (rows T)\<rparr>)
       else (Inl (Exn ''column id does not exist''), T))"

section \<open>The local schema\<close>

text \<open>The four application tables as \<open>_initDatabase\<close> creates them, holding the given rows.
  \<open>sync_metadata\<close> and \<open>sync_log\<close> are lists of their own in the state.\<close>

definition projects_table :: "row list \<Rightarrow> int \<Rightarrow> table" where
  "projects_table rs n =
     \<lparr>columns = [''id'', ''name''], pkey = [''id''], not_null = [''name''], rows = rs, seq_no = n\<rparr>"

definition tasks_table :: "row list \<Rightarrow> int \<Rightarrow> table" where
  "tasks_table rs n =
     \<lparr>columns = [''id'', ''project_id'', ''title'', ''description''], pkey = [''id''],
      not_null = [''project_id'', ''title''], rows = rs, seq_no = n\<rparr>"

definition tags_table :: "row list \<Rightarrow> int \<Rightarrow> table" where
  "tags_table rs n =
     \<lparr>columns = [''id'', ''name''], pkey = [''id''], not_null = [''name''], rows = rs, seq_no = n\<rparr>"

definition task_tags_table :: "row list \<Rightarrow> table" where
  "task_tags_table rs =
     \<lparr>columns = [''task_id'', ''tag_id''], pkey = [''task_id'', ''tag_id''],
      not_null = [''task_id'', ''tag_id''], rows = rs, seq_no = 0\<rparr>"

section \<open>The database module: \<open>initDatabase\<close>, \<open>getDb\<close>, \<open>withRetry\<close>\<close>

text \<open>\<open>CREATE TABLE IF NOT EXISTS t (...)\<close>: a table that exists is left as it is.\<close>

definition create_table :: "string \<Rightarrow> table \<Rightarrow> world \<Rightarrow> world" where
  "create_table t T w =
     log_op (Sql ''CREATE'' t) (case tables w t of None \<Rightarrow> store_table t T w | Some _ \<Rightarrow> w)"

text \<open>The two sync tables are created inside a \<open>try\<close> of their own. A statement of the
  model fails for what the schema and the data decide, and these two cannot.\<close>

definition create_sync_tables :: "world \<Rightarrow> world" where
  "create_sync_tables w =
     (log_op (Sql ''CREATE'' ''sync_log'') (log_op (Sql ''CREATE'' ''sync_metadata'') w))
       \<lparr>sync_metadata := Some (case sync_metadata w of None \<Rightarrow> [] | Some ms \<Rightarrow> ms),
        sync_log := Some (case sync_log w of None \<Rightarrow> [] | Some l \<Rightarrow> l)\<rparr>"

text \<open>\<open>addSampleData\<close>: two projects, three tasks, two tags and two tag assignments, each
  row keyed by the \<open>lastInsertRowId\<close> of the rows it refers to.\<close>

definition addSampleData :: "unit io" where
  "addSampleData =
     bindIO (sql_insert_row False ''projects'' [(''name'', VStr ''Inbox'')]) (\<lambda>inboxIdResult.
     bindIO (sql_insert_row False ''projects'' [(''name'', VStr ''My First Project'')])
       (\<lambda>projectIdResult.
     if lastInsertRowId projectIdResult = 0 \<or> lastInsertRowId inboxIdResult = 0
     then throwIO (Exn ''Failed to get project ID from insert result'')
     else
     bindIO (sql_insert_row False ''tasks''
               [(''project_id'', VInt (lastInsertRowId inboxIdResult)),
                (''title'', VStr ''Welcome to Inbox''),
                (''description'', VStr ''This is your main workspace for quick tasks'')])
       (\<lambda>inboxTask1.
     bindIO (sql_insert_row False ''tasks''
               [(''project_id'', VInt (lastInsertRowId projectIdResult)),
                (''title'', VStr ''Design UI''), (''description'', VStr ''Create wireframes'')])
       (\<lambda>task1.
     bindIO (sql_insert_row False ''tasks''
               [(''project_id'', VInt (lastInsertRowId projectIdResult)),
                (''title'', VStr ''Build API''),
                (''description'', VStr ''Set up backend endpoints'')])
       (\<lambda>task2.
     bindIO (sql_insert_row False ''tags'' [(''name'', VStr ''UI'')]) (\<lambda>tag1.
     bindIO (sql_insert_row False ''tags'' [(''name'', VStr ''Backend'')]) (\<lambda>tag2.
     bindIO (sql_insert False ''task_tags''
               [(''task_id'', VInt (lastInsertRowId task1)),
                (''tag_id'', VInt (lastInsertRowId tag1))]) (\<lambda>_.
     sql_insert False ''task_tags''
       [(''task_id'', VInt (lastInsertRowId task2)),
        (''tag_id'', VInt (lastInsertRowId tag2))]))))))))"

text \<open>
  What \<open>_initDatabase\<close> does once the database is open: it creates the tables that are
  missing, counts the projects, and adds the sample data to an empty \<open>projects\<close> table
  or, otherwise, a project named Inbox when none has that name.
\<close>

definition bootstrap :: "unit io" where
  "bootstrap w =
     bindIO (sql_select ''projects'' []) (\<lambda>result.
       if length result = 0 then addSampleData
       else bindIO (sql_select ''projects'' [(''name'', VStr ''Inbox'')]) (\<lambda>inboxExists.
              if length inboxExists = 0
              then sql_insert False ''projects'' [(''name'', VStr ''Inbox'')]
              else returnIO ()))
       (create_sync_tables
         (create_table ''task_tags'' (task_tags_table [])
           (create_table ''tags'' (tags_table [] 0)
             (create_table ''tasks'' (tasks_table [] 0)
               (create_table ''projects'' (projects_table [] 0) w)))))"

text \<open>
  \<open>_initDatabase\<close>: \<open>SQLite.openDatabaseAsync\<close> fails when the environment says so; an
  error of a later statement is caught, the handle is dropped and the error rethrown,
  and what the statements before it wrote stays written. The statements use the handle
  they were given and not \<open>getDb\<close>, so the model sets \<open>db\<close> when they are done.
\<close>

definition initDatabase_inner :: "env \<Rightarrow> unit io" where
  "initDatabase_inner e w =
     (case open_fault e (opens w) of
        Some x \<Rightarrow> (Inl x, w\<lparr>opens := Suc (opens w), db := False\<rparr>)
      | None \<Rightarrow>
          (case bootstrap (w\<lparr>opens := Suc (opens w)\<rparr>) of
             (Inl x, w1) \<Rightarrow> (Inl x, w1\<lparr>db := False\<rparr>)
           | (Inr _, w1) \<Rightarrow> (Inr (), w1\<lparr>db := True\<rparr>)))"

text \<open>\<open>initDatabase\<close> returns at once when a handle is held, and runs \<open>_initDatabase\<close>
  otherwise.\<close>

definition initDatabase :: "env \<Rightarrow> unit io" where
  "initDatabase e w = (if db w then (Inr (), w) else initDatabase_inner e w)"

definition getDb :: "unit io" where
  "getDb w =
     (if db w then (Inr (), w)
      else (Inl (Exn ''Database not initialized. Call initDatabase() first.''), w))"

text \<open>
  \<open>withRetry(operation, maxRetries = 3)\<close>: each attempt initialises the database and runs
  the operation; a failure drops the handle and tries again; after the last attempt the
  last error is thrown. What a failed attempt has written stays written.
\<close>

fun retry_loop :: "nat \<Rightarrow> env \<Rightarrow> 'a io \<Rightarrow> exn \<Rightarrow> 'a io" where
  "retry_loop 0 e operation lastError w = (Inl lastError, w)"
| "retry_loop (Suc k) e operation lastError w =
     (case initDatabase e w of
        (Inl x, w1) \<Rightarrow> retry_loop k e operation x (w1\<lparr>db := False\<rparr>)
      | (Inr _, w1) \<Rightarrow>
          (case operation w1 of
             (Inr v, w2) \<Rightarrow> (Inr v, w2)
           | (Inl x, w2) \<Rightarrow> retry_loop k e operation x (w2\<lparr>db := False\<rparr>)))"

definition withRetry :: "env \<Rightarrow> 'a io \<Rightarrow> 'a io" where
  "withRetry e operation = retry_loop 3 e operation (Exn ''undefined'')"

section \<open>The sync service: bookkeeping\<close>

text \<open>Statements on \<open>sync_metadata\<close> and \<open>sync_log\<close> throw when the table is not there.\<close>

definition meta_table :: "string \<Rightarrow> meta list io" where
  "meta_table kind w =
     (case sync_metadata w of
        None \<Rightarrow> (Inl (Exn ''no such table: sync_metadata''), log_op (Sql kind ''sync_metadata'') w)
      | Some ms \<Rightarrow> (Inr ms, log_op (Sql kind ''sync_metadata'') w))"

text \<open>
  \<open>SELECT ... WHERE sync_status IN ('pending', 'error') ORDER BY last_modified ASC LIMIT ?\<close>.
  SQLite leaves the order of rows with equal \<open>last_modified\<close> open; the model keeps them
  in rowid order.
\<close>

definition select_pending :: "nat \<Rightarrow> meta list \<Rightarrow> meta list" where
  "select_pending limit ms =
     take limit (sort_key last_modified
       (filter (\<lambda>m. sync_status m = Pending \<or> sync_status m = Error) ms))"

definition getPendingChanges :: "env \<Rightarrow> meta list io" where
  "getPendingChanges e =
     withRetry e (bindIO getDb (\<lambda>_.
       catchIO (bindIO (meta_table ''SELECT'') (\<lambda>ms. returnIO (select_pending (BATCH_SIZE e) ms)))
               (\<lambda>error. returnIO [])))"

definition getLocalRecord :: "env \<Rightarrow> string \<Rightarrow> int \<Rightarrow> row option io" where
  "getLocalRecord e tableName recordId =
     withRetry e (bindIO getDb (\<lambda>_. sql_first tableName [(''id'', VInt recordId)]))"

text \<open>The \<open>updates\<close> object of \<open>updateSyncMetadata\<close>: one assignment per key. The callers
  pass \<open>{sync_status}\<close> or \<open>{sync_status, supabase_id}\<close>.\<close>

datatype meta_set = Set_sync_status status | Set_supabase_id "int option"

fun apply_set :: "meta \<Rightarrow> meta_set \<Rightarrow> meta" where
  "apply_set m (Set_sync_status v) = m\<lparr>sync_status := v\<rparr>"
| "apply_set m (Set_supabase_id v) = m\<lparr>supabase_id := v\<rparr>"

text \<open>\<open>WHERE table_name = ? AND record_id = ?\<close>; an undefined record id (\<open>None\<close>) matches
  no row.\<close>

definition is_for :: "string \<Rightarrow> int option \<Rightarrow> meta \<Rightarrow> bool" where
  "is_for tableName recordId m = (table_name m = tableName \<and> Some (record_id m) = recordId)"

text \<open>\<open>UPDATE sync_metadata SET ..., updated_at = CURRENT_TIMESTAMP WHERE table_name = ?
  AND record_id = ?\<close>: a row that is not there is not created.\<close>

definition update_meta ::
  "nat \<Rightarrow> string \<Rightarrow> int option \<Rightarrow> meta_set list \<Rightarrow> meta list \<Rightarrow> meta list" where
  "update_meta timestamp tableName recordId updates ms =
     map (\<lambda>m. if is_for tableName recordId m
              then (foldl apply_set m updates)\<lparr>updated_at := timestamp\<rparr> else m) ms"

definition updateSyncMetadata :: "env \<Rightarrow> string \<Rightarrow> int option \<Rightarrow> meta_set list \<Rightarrow> unit io" where
  "updateSyncMetadata e tableName recordId updates =
     withRetry e (bindIO getDb (\<lambda>_.
       bindIO (meta_table ''UPDATE'') (\<lambda>ms w.
         (Inr (), w\<lparr>sync_metadata :=
                      Some (update_meta (now e) tableName recordId updates ms)\<rparr>))))"

text \<open>
  \<open>insertSyncMetadata(tableName, recordId, supabaseId = null)\<close>:
  \<open>INSERT OR REPLACE INTO sync_metadata (table_name, record_id, sync_status, supabase_id,
  last_modified, created_at, updated_at) VALUES (?, ?, 'pending', ?, now, now, now)\<close>.
  \<open>OR REPLACE\<close> deletes the row that holds the unique key \<open>(table_name, record_id)\<close> and
  inserts the new one. A failure of the statement is caught and logged.
\<close>

definition replace_meta :: "nat \<Rightarrow> string \<Rightarrow> int \<Rightarrow> int option \<Rightarrow> meta list \<Rightarrow> meta list" where
  "replace_meta timestamp tableName recordId supabaseId ms =
     filter (\<lambda>m. \<not> is_for tableName (Some recordId) m) ms @
     [\<lparr>table_name = tableName, record_id = recordId, sync_status = Pending,
       supabase_id = supabaseId, last_modified = timestamp, created_at = timestamp,
       updated_at = timestamp\<rparr>]"

definition insertSyncMetadata :: "env \<Rightarrow> string \<Rightarrow> int \<Rightarrow> int option \<Rightarrow> unit io" where
  "insertSyncMetadata e tableName recordId supabaseId =
     withRetry e (bindIO getDb (\<lambda>_.
       catchIO
         (bindIO (meta_table ''INSERT'') (\<lambda>ms w.
            (Inr (), w\<lparr>sync_metadata :=
                         Some (replace_meta (now e) tableName recordId supabaseId ms)\<rparr>)))
         (\<lambda>error. returnIO ())))"

definition logSyncOperation ::
  "env \<Rightarrow> string \<Rightarrow> string \<Rightarrow> string \<Rightarrow> nat \<Rightarrow> string option \<Rightarrow> unit io" where
  "logSyncOperation e syncType st msg recordsSynced errorDetails =
     withRetry e (bindIO getDb (\<lambda>_.
       catchIO
         (\<lambda>w. case sync_log w of
                 None \<Rightarrow> (Inl (Exn ''no such table: sync_log''), log_op (Sql ''INSERT'' ''sync_log'') w)
               | Some l \<Rightarrow>
                   (Inr (), (log_op (Sql ''INSERT'' ''sync_log'') w)\<lparr>sync_log := Some (l @
                      [\<lparr>sync_type = syncType, log_status = st, log_message = msg,
                        records_synced = recordsSynced, error_details = errorDetails,
                        started_at = now e, completed_at = now e\<rparr>])\<rparr>))
         (\<lambda>error. returnIO ())))"

text \<open>
  \<open>notifyListeners\<close> calls every listener inside a \<open>try\<close>; a listener is code of the
  application, so the model records what was published and nothing else.
\<close>

definition notifyListeners :: "phase \<Rightarrow> string \<Rightarrow> world \<Rightarrow> world" where
  "notifyListeners st msg w = w\<lparr>notifications := notifications w @ [(st, msg)]\<rparr>"

definition getLocalTableColumns :: "env \<Rightarrow> string \<Rightarrow> string list io" where
  "getLocalTableColumns e tableName = withRetry e (bindIO getDb (\<lambda>_. sql_table_info tableName))"

section \<open>The sync service: connection, upload, download\<close>

text \<open>
  \<open>checkConnection\<close>: throws when Supabase is not configured (the \<open>throw\<close> stands before
  the \<open>try\<close>); otherwise reads from the remote \<open>projects\<close> table and sets \<open>isOnline\<close>.
\<close>

definition checkConnection :: "env \<Rightarrow> bool io" where
  "checkConnection e w =
     (if \<not> configured e then (Inl (Exn ''Supabase not configured''), w)
      else (case request e ''select'' ''projects'' (\<lambda>T. (Inr (), T)) w of
              (Inr _, w1) \<Rightarrow> (Inr True, w1\<lparr>isOnline := True\<rparr>)
            | (Inl error, w1) \<Rightarrow> (Inr False, w1\<lparr>isOnline := False\<rparr>)))"

text \<open>The body of the \<open>try\<close> in the loop of \<open>uploadToSupabase\<close>, for one pending change.\<close>

definition uploadRecord :: "env \<Rightarrow> meta \<Rightarrow> unit io" where
  "uploadRecord e change =
     bindIO (getLocalRecord e (table_name change) (record_id change)) (\<lambda>localRecord.
       case localRecord of
         None \<Rightarrow>
           bindIO (case supabase_id change of
                     Some sid \<Rightarrow> remote_delete e (table_name change) sid
                   | None \<Rightarrow> returnIO ())
             (\<lambda>_. updateSyncMetadata e (table_name change) (Some (record_id change))
                    [Set_sync_status Synced])
       | Some r \<Rightarrow>
           (let supabaseData = filter (\<lambda>(k, v). k \<noteq> ''id'') r
            in bindIO (case supabase_id change of
                         Some sid \<Rightarrow> remote_update e (table_name change) supabaseData sid
                       | None \<Rightarrow> remote_insert e (table_name change) supabaseData)
                 (\<lambda>data. updateSyncMetadata e (table_name change) (Some (record_id change))
                    [Set_sync_status Synced, Set_supabase_id (row_id data)])))"

text \<open>One round of the loop: \<open>True\<close> when the change counts as uploaded, \<open>False\<close> when the
  \<open>catch\<close> ran and marked it \<open>error\<close>. The update in the \<open>catch\<close> is not guarded.\<close>

definition uploadChange :: "env \<Rightarrow> meta \<Rightarrow> bool io" where
  "uploadChange e change =
     catchIO (bindIO (uploadRecord e change) (\<lambda>_. returnIO True))
       (\<lambda>error. bindIO (updateSyncMetadata e (table_name change) (Some (record_id change))
                          [Set_sync_status Error])
                  (\<lambda>_. returnIO False))"

fun uploadLoop :: "env \<Rightarrow> meta list \<Rightarrow> nat \<times> nat \<Rightarrow> (nat \<times> nat) io" where
  "uploadLoop e [] counts w = (Inr counts, w)"
| "uploadLoop e (change # changes) (uploadedCount, errorCount) w =
     (case uploadChange e change w of
        (Inl x, w1) \<Rightarrow> (Inl x, w1)
      | (Inr True, w1) \<Rightarrow> uploadLoop e changes (uploadedCount + 1, errorCount) w1
      | (Inr False, w1) \<Rightarrow> uploadLoop e changes (uploadedCount, errorCount + 1) w1)"

definition uploadToSupabase :: "env \<Rightarrow> nat io" where
  "uploadToSupabase e =
     bindIO (getPendingChanges e) (\<lambda>changes.
       if length changes = 0 then returnIO 0
       else bindIO (uploadLoop e changes (0, 0)) (\<lambda>(uploadedCount, errorCount).
              returnIO uploadedCount))"

text \<open>The operation that the download phase runs, under \<open>withRetry\<close>, for one remote row.\<close>

definition id_param :: "row \<Rightarrow> val" where
  "id_param r = (case row_id r of Some i \<Rightarrow> VInt i | None \<Rightarrow> VNull)"

definition downloadRecord :: "env \<Rightarrow> string \<Rightarrow> row \<Rightarrow> unit io" where
  "downloadRecord e tableName supabaseRecord =
     withRetry e (bindIO getDb (\<lambda>_.
       bindIO (sql_first tableName [(''id'', id_param supabaseRecord)]) (\<lambda>existingRecord.
       bindIO
         (case existingRecord of
            Some _ \<Rightarrow>
              bindIO (getLocalTableColumns e tableName) (\<lambda>localColumns.
                let updateFields =
                      filter (\<lambda>(k, v). k \<noteq> ''id'' \<and> k \<in> set localColumns) supabaseRecord
                in if updateFields \<noteq> []
                   then bindIO (sql_update tableName updateFields
                                  [(''id'', id_param supabaseRecord)])
                          (\<lambda>_. returnIO ())
                   else returnIO ())
          | None \<Rightarrow>
              bindIO (getLocalTableColumns e tableName) (\<lambda>localColumns.
                let fieldsToInsert = filter (\<lambda>(k, v). k \<in> set localColumns) supabaseRecord
                in if length fieldsToInsert > 0
                   then sql_insert False tableName fieldsToInsert
                   else returnIO ()))
         (\<lambda>_. updateSyncMetadata e tableName (row_id supabaseRecord)
                [Set_sync_status Synced, Set_supabase_id (row_id supabaseRecord)]))))"

fun downloadRecords ::
  "env \<Rightarrow> string \<Rightarrow> row list \<Rightarrow> nat \<times> nat \<Rightarrow> world \<Rightarrow> (nat \<times> nat) \<times> world" where
  "downloadRecords e tableName [] counts w = (counts, w)"
| "downloadRecords e tableName (supabaseRecord # data) (downloadedCount, errorCount) w =
     (case downloadRecord e tableName supabaseRecord w of
        (Inr _, w1) \<Rightarrow> downloadRecords e tableName data (downloadedCount + 1, errorCount) w1
      | (Inl error, w1) \<Rightarrow> downloadRecords e tableName data (downloadedCount, errorCount + 1) w1)"

fun downloadTables ::
  "env \<Rightarrow> string list \<Rightarrow> nat \<times> nat \<Rightarrow> world \<Rightarrow> (nat \<times> nat) \<times> world" where
  "downloadTables e [] counts w = (counts, w)"
| "downloadTables e (tableName # ts) (downloadedCount, errorCount) w =
     (case remote_select_all e tableName w of
        (Inl error, w1) \<Rightarrow> downloadTables e ts (downloadedCount, errorCount + 1) w1
      | (Inr data, w1) \<Rightarrow>
          (case downloadRecords e tableName data (downloadedCount, errorCount) w1 of
             (counts, w2) \<Rightarrow> downloadTables e ts counts w2))"

definition downloadFromSupabase :: "env \<Rightarrow> nat io" where
  "downloadFromSupabase e w =
     (case downloadTables e (TABLES w) (0, 0) w of
        ((downloadedCount, errorCount), w1) \<Rightarrow> (Inr downloadedCount, w1))"

section \<open>The sync service: \<open>sync\<close>\<close>

text \<open>Numbers in messages are written in decimal, as a template literal does.\<close>

function show_nat :: "nat \<Rightarrow> string" where
  "show_nat n =
     (if n < 10 then [''0123456789'' ! n]
      else show_nat (n div 10) @ [''0123456789'' ! (n mod 10)])"
  by pat_completeness auto
termination
  by (relation "measure id") auto

text \<open>
  What \<open>sync\<close> returns: \<open>{success: false, message}\<close> when a pass is running,
  \<open>{success: true, uploadedCount, downloadedCount, lastSyncTime, ...}\<close> after a pass, and
  \<open>{success: false, error, ...}\<close> when the pass threw. Durations are not modelled.
\<close>

datatype sync_result =
    Skipped string
  | Completed nat nat nat
  | Failed string

fun success :: "sync_result \<Rightarrow> bool" where
  "success (Completed _ _ _) = True"
| "success _ = False"

text \<open>The \<open>try\<close> block of \<open>sync\<close>.\<close>

definition sync_try :: "env \<Rightarrow> sync_result io" where
  "sync_try e =
     bindIO (checkConnection e) (\<lambda>isConnected.
       if \<not> isConnected then throwIO (Exn ''No internet connection or Supabase unavailable'')
       else
         bindIO (\<lambda>w. (Inr (), notifyListeners SYNCING ''Uploading changes...'' w)) (\<lambda>_.
         bindIO (uploadToSupabase e) (\<lambda>uploadedCount.
         bindIO (\<lambda>w. (Inr (), notifyListeners SYNCING ''Downloading changes...'' w)) (\<lambda>_.
         bindIO (downloadFromSupabase e) (\<lambda>downloadedCount.
         bindIO (\<lambda>w. (Inr (), w\<lparr>lastSyncTime := Some (now e)\<rparr>)) (\<lambda>_.
         bindIO (logSyncOperation e ''full_sync'' ''success''
                   (''Sync completed successfully. Uploaded: '' @ show_nat uploadedCount @
                    '', Downloaded: '' @ show_nat downloadedCount)
                   (uploadedCount + downloadedCount) None) (\<lambda>_.
         bindIO (\<lambda>w. (Inr (), notifyListeners SUCCESS
                   (''Sync completed. Uploaded: '' @ show_nat uploadedCount @
                    '', Downloaded: '' @ show_nat downloadedCount) w)) (\<lambda>_.
         returnIO (Completed uploadedCount downloadedCount (now e))))))))))"

text \<open>The \<open>catch\<close> block of \<open>sync\<close>: it awaits \<open>logSyncOperation\<close>, outside any \<open>try\<close>. The
  stack of the error, logged as \<open>error_details\<close>, is represented by its message.\<close>

definition sync_catch :: "env \<Rightarrow> exn \<Rightarrow> sync_result io" where
  "sync_catch e error =
     bindIO (logSyncOperation e ''full_sync'' ''error'' (''Sync failed: '' @ message error) 0
               (Some (message error))) (\<lambda>_.
     bindIO (\<lambda>w. (Inr (), notifyListeners ERROR (''Sync failed: '' @ message error) w)) (\<lambda>_.
     returnIO (Failed (message error))))"

text \<open>\<open>sync(force = false)\<close>; the \<open>finally\<close> block clears \<open>syncInProgress\<close> whether the
  \<open>try\<close> and \<open>catch\<close> blocks returned or threw.\<close>

definition sync :: "env \<Rightarrow> bool \<Rightarrow> sync_result io" where
  "sync e force w =
     (if syncInProgress w \<and> \<not> force
      then (Inr (Skipped ''Sync already in progress''), w)
      else (case catchIO (sync_try e) (sync_catch e)
                   (notifyListeners SYNCING ''Starting sync...'' (w\<lparr>syncInProgress := True\<rparr>)) of
              (res, w1) \<Rightarrow> (res, w1\<lparr>syncInProgress := False\<rparr>)))"

section \<open>The sync service: export\<close>

record export_counts =
  exported :: nat
  skipped :: nat
  errors :: nat

text \<open>One record of a batch in \<open>exportTableToSupabase\<close>. The requests return their error
  as a value, and no progress callback is installed, so the \<open>catch\<close> of the source has
  nothing to catch.\<close>

definition exportRecord ::
  "env \<Rightarrow> string \<Rightarrow> bool \<Rightarrow> row \<Rightarrow> export_counts \<Rightarrow> world \<Rightarrow> export_counts \<times> world" where
  "exportRecord e tableName skipExisting record c w =
     (case (if skipExisting
            then (case remote_select_single e tableName (row_id record) w of
                    (Inr existing, w1) \<Rightarrow> (True, w1)
                  | (Inl _, w1) \<Rightarrow> (False, w1))
            else (False, w)) of
        (True, w1) \<Rightarrow> (c\<lparr>skipped := skipped c + 1\<rparr>, w1)
      | (False, w1) \<Rightarrow>
          (case remote_insert e tableName record w1 of
             (Inl error, w2) \<Rightarrow> (c\<lparr>errors := errors c + 1\<rparr>, w2)
           | (Inr data, w2) \<Rightarrow> (c\<lparr>exported := exported c + 1\<rparr>, w2)))"

fun exportBatch ::
  "env \<Rightarrow> string \<Rightarrow> bool \<Rightarrow> row list \<Rightarrow> export_counts \<Rightarrow> world \<Rightarrow> export_counts \<times> world" where
  "exportBatch e tableName skipExisting [] c w = (c, w)"
| "exportBatch e tableName skipExisting (record # batch) c w =
     (case exportRecord e tableName skipExisting record c w of
        (c1, w1) \<Rightarrow> exportBatch e tableName skipExisting batch c1 w1)"

text \<open>\<open>for (let i = 0; i < localRecords.length; i += batchSize)\<close>, for a positive
  \<open>batchSize\<close>; with \<open>batchSize = 0\<close> the source's loop never ends, which
  \<open>exportTableToSupabase\<close> below decides before it calls this function.\<close>

function exportBatches ::
  "env \<Rightarrow> string \<Rightarrow> bool \<Rightarrow> nat \<Rightarrow> row list \<Rightarrow> nat \<Rightarrow> export_counts \<Rightarrow> world
     \<Rightarrow> export_counts \<times> world" where
  "exportBatches e tableName skipExisting batchSize localRecords i c w =
     (if 0 < batchSize \<and> i < length localRecords
      then (case exportBatch e tableName skipExisting
                   (take batchSize (drop i localRecords)) c w of
              (c1, w1) \<Rightarrow>
                exportBatches e tableName skipExisting batchSize localRecords (i + batchSize) c1 w1)
      else (c, w))"
  by pat_completeness auto
termination
  by (relation "measure (\<lambda>(e, t, s, b, rs, i, c, w). length rs - i)") auto

text \<open>
  \<open>exportTableToSupabase\<close>. The result is \<open>None\<close> when the call never returns: with
  \<open>batchSize = 0\<close> and a table that has rows, the loop over the batches takes an empty
  slice for ever, without touching a store.
\<close>

definition exportTableToSupabase ::
  "env \<Rightarrow> string \<Rightarrow> bool \<Rightarrow> nat \<Rightarrow> world \<Rightarrow> ((exn + export_counts) \<times> world) option" where
  "exportTableToSupabase e tableName skipExisting batchSize w =
     (if batchSize = 0
      then (case withRetry e (bindIO getDb (\<lambda>_. sql_select tableName [])) w of
              (Inl x, w1) \<Rightarrow> Some (Inl x, w1)
            | (Inr [], w1) \<Rightarrow> Some (Inr \<lparr>exported = 0, skipped = 0, errors = 0\<rparr>, w1)
            | (Inr (r # rs), w1) \<Rightarrow> None)
      else Some (withRetry e (bindIO getDb (\<lambda>_.
             bindIO (sql_select tableName []) (\<lambda>localRecords w1.
               if length localRecords = 0
               then (Inr \<lparr>exported = 0, skipped = 0, errors = 0\<rparr>, w1)
               else (case exportBatches e tableName skipExisting batchSize localRecords 0
                            \<lparr>exported = 0, skipped = 0, errors = 0\<rparr> w1 of
                       (c, w2) \<Rightarrow> (Inr c, w2))))) w))"

text \<open>The options of \<open>exportAllDataToSupabase\<close>, with the defaults \<open>clearSupabaseFirst =
  false\<close>, \<open>skipExisting = true\<close>, \<open>batchSize = 10\<close> and no progress callback.\<close>

record export_options =
  clearSupabaseFirst :: bool
  skipExisting :: bool
  batchSize :: nat

definition default_options :: export_options where
  "default_options = \<lparr>clearSupabaseFirst = False, skipExisting = True, batchSize = 10\<rparr>"

text \<open>An entry of the \<open>results\<close> object: the counts of a table, or the message of the error
  that its export threw.\<close>

datatype table_result = Counts export_counts | Export_error string

record export_report =
  report_success :: bool
  report_error :: "string option"
  report_totalExported :: nat
  report_totalErrors :: nat
  report_results :: "(string \<times> table_result) list"

text \<open>The loop that clears the remote tables: an error is logged and the loop goes on.\<close>

fun clearTables :: "env \<Rightarrow> string list \<Rightarrow> world \<Rightarrow> world" where
  "clearTables e [] w = w"
| "clearTables e (tableName # ts) w =
     (case remote_delete_all e tableName w of (_, w1) \<Rightarrow> clearTables e ts w1)"

text \<open>The loop that exports table by table.\<close>

fun exportTables ::
  "env \<Rightarrow> export_options \<Rightarrow> string list \<Rightarrow> nat \<times> nat \<times> (string \<times> table_result) list
     \<Rightarrow> world \<Rightarrow> ((nat \<times> nat \<times> (string \<times> table_result) list) \<times> world) option" where
  "exportTables e opts [] acc w = Some (acc, w)"
| "exportTables e opts (tableName # ts) (totalExported, totalErrors, results) w =
     (case exportTableToSupabase e tableName (skipExisting opts) (batchSize opts) w of
        None \<Rightarrow> None
      | Some (Inr tableResults, w1) \<Rightarrow>
          exportTables e opts ts
            (totalExported + exported tableResults, totalErrors + errors tableResults,
             assign results (tableName, Counts tableResults)) w1
      | Some (Inl error, w1) \<Rightarrow>
          exportTables e opts ts
            (totalExported, totalErrors + 1,
             assign results (tableName, Export_error (message error))) w1)"

text \<open>
  \<open>exportAllDataToSupabase(options)\<close>. \<open>SYNC_CONFIG.TABLES.reverse()\<close> is
  \<open>Array.prototype.reverse\<close>: it reverses the array in place and returns that same array,
  so the loop that clears iterates over the reversed array and \<open>SYNC_CONFIG.TABLES\<close> stays
  reversed afterwards.
\<close>

definition exportAllDataToSupabase ::
  "env \<Rightarrow> export_options \<Rightarrow> world \<Rightarrow> (export_report \<times> world) option" where
  "exportAllDataToSupabase e opts w =
     (case checkConnection e w of
        (Inl error, w1) \<Rightarrow>
          Some (\<lparr>report_success = False, report_error = Some (message error),
                 report_totalExported = 0, report_totalErrors = 0, report_results = []\<rparr>, w1)
      | (Inr False, w1) \<Rightarrow>
          Some (\<lparr>report_success = False, report_error = Some ''No connection to Supabase'',
                 report_totalExported = 0, report_totalErrors = 0, report_results = []\<rparr>, w1)
      | (Inr True, w1) \<Rightarrow>
          (let w2 = (if clearSupabaseFirst opts
                     then clearTables e (rev (TABLES w1)) (w1\<lparr>TABLES := rev (TABLES w1)\<rparr>)
                     else w1)
           in case exportTables e opts (TABLES w2) (0, 0, []) w2 of
                None \<Rightarrow> None
              | Some ((totalExported, totalErrors, results), w3) \<Rightarrow>
                  Some (\<lparr>report_success = True, report_error = None,
                         report_totalExported = totalExported,
                         report_totalErrors = totalErrors, report_results = results\<rparr>, w3)))"

section \<open>The repositories\<close>

text \<open>\<open>updateProject(id, name)\<close> of the projects repository.\<close>

definition updateProject :: "env \<Rightarrow> int \<Rightarrow> string \<Rightarrow> (int \<times> string) io" where
  "updateProject e ident name =
     withRetry e (bindIO getDb (\<lambda>_.
       bindIO (sql_update ''projects'' [(''name'', VStr name)] [(''id'', VInt ident)]) (\<lambda>changes.
         if changes = 0 then throwIO (Exn ''Project not found'')
         else bindIO (insertSyncMetadata e ''projects'' ident None) (\<lambda>_.
                returnIO (ident, name)))))"

text \<open>\<open>deleteProject(id)\<close> of the projects repository.\<close>

definition deleteProject :: "env \<Rightarrow> int \<Rightarrow> int io" where
  "deleteProject e ident =
     withRetry e (bindIO getDb (\<lambda>_.
       bindIO (sql_delete ''tasks'' [(''project_id'', VInt ident)]) (\<lambda>tasksResult.
       bindIO (sql_delete ''projects'' [(''id'', VInt ident)]) (\<lambda>changes.
         if changes = 0 then throwIO (Exn ''Project not found'')
         else bindIO (insertSyncMetadata e ''projects'' ident None) (\<lambda>_.
                returnIO ident)))))"

text \<open>\<open>addTagToTask(taskId, tagId)\<close> and \<open>removeTagFromTask(taskId, tagId)\<close> of the tasks
  repository.\<close>

definition addTagToTask :: "env \<Rightarrow> int \<Rightarrow> int \<Rightarrow> (int \<times> int) io" where
  "addTagToTask e taskId tagId =
     withRetry e (bindIO getDb (\<lambda>_.
       bindIO (sql_insert True ''task_tags'' [(''task_id'', VInt taskId), (''tag_id'', VInt tagId)])
         (\<lambda>_. returnIO (taskId, tagId))))"

definition removeTagFromTask :: "env \<Rightarrow> int \<Rightarrow> int \<Rightarrow> (int \<times> int) io" where
  "removeTagFromTask e taskId tagId =
     withRetry e (bindIO getDb (\<lambda>_.
       bindIO (sql_delete ''task_tags'' [(''task_id'', VInt taskId), (''tag_id'', VInt tagId)])
         (\<lambda>result. returnIO (taskId, tagId))))"

section \<open>Stores used in the examples\<close>

text \<open>The remote schema of the setup notes, which adds \<open>created_at\<close> and \<open>updated_at\<close> to
  the application tables.\<close>

definition remote_projects_table :: "row list \<Rightarrow> int \<Rightarrow> table" where
  "remote_projects_table rs n =
     \<lparr>columns = [''id'', ''name'', ''created_at'', ''updated_at''], pkey = [''id''],
      not_null = [''name''], rows = rs, seq_no = n\<rparr>"

definition remote_tasks_table :: "row list \<Rightarrow> int \<Rightarrow> table" where
  "remote_tasks_table rs n =
     \<lparr>columns = [''id'', ''project_id'', ''title'', ''description'', ''created_at'', ''updated_at''],
      pkey = [''id''], not_null = [''project_id'', ''title''], rows = rs, seq_no = n\<rparr>"

text \<open>An environment in which both stores answer, and one whose local database cannot be
  opened.\<close>

definition healthy_env :: env where
  "healthy_env =
     \<lparr>open_fault = (\<lambda>n. None), remote_fault = (\<lambda>n. None), configured = True,
      BATCH_SIZE = 50, now = 100\<rparr>"

definition unopenable_env :: env where
  "unopenable_env = healthy_env\<lparr>open_fault := (\<lambda>n. Some (Exn ''unable to open database file''))\<rparr>"

definition offline_env :: env where
  "offline_env = healthy_env\<lparr>remote_fault := (\<lambda>n. Some (Exn ''Network request failed''))\<rparr>"

text \<open>A device with two projects, three tasks and one tag; project 2 was synced before
  and has the remote identifier 7. The remote store holds project 7.\<close>

definition demo_world :: world where
  "demo_world =
     \<lparr>db = True, opens = 0,
      tables =
        [''projects'' \<mapsto> projects_table
           [[(''id'', VInt 1), (''name'', VStr ''Inbox'')],
            [(''id'', VInt 2), (''name'', VStr ''Work'')]] 2,
         ''tasks'' \<mapsto> tasks_table
           [[(''id'', VInt 5), (''project_id'', VInt 2), (''title'', VStr ''Design UI''),
             (''description'', VNull)],
            [(''id'', VInt 6), (''project_id'', VInt 2), (''title'', VStr ''Build API''),
             (''description'', VNull)],
            [(''id'', VInt 7), (''project_id'', VInt 1), (''title'', VStr ''Welcome''),
             (''description'', VNull)]] 7,
         ''tags'' \<mapsto> tags_table [[(''id'', VInt 1), (''name'', VStr ''UI'')]] 1,
         ''task_tags'' \<mapsto> task_tags_table [[(''task_id'', VInt 5), (''tag_id'', VInt 1)]]],
      sync_metadata = Some
        [\<lparr>table_name = ''projects'', record_id = 2, sync_status = Synced, supabase_id = Some 7,
          last_modified = 10, created_at = 10, updated_at = 20\<rparr>,
         \<lparr>table_name = ''tasks'', record_id = 5, sync_status = Synced, supabase_id = Some 5,
          last_modified = 11, created_at = 11, updated_at = 20\<rparr>],
      sync_log = Some [],
      remote_tables =
        [''projects'' \<mapsto> remote_projects_table [[(''id'', VInt 7), (''name'', VStr ''Work'')]] 7,
         ''tasks'' \<mapsto> remote_tasks_table [] 5],
      requests = 0, isOnline = True, syncInProgress = False, lastSyncTime = None,
      TABLES = [''projects'', ''tasks''], trace = [], notifications = []\<rparr>"

text \<open>The same device while a sync pass is running.\<close>

definition syncing_world :: world where
  "syncing_world = demo_world\<lparr>syncInProgress := True\<rparr>"

text \<open>The same device after its database handle was dropped.\<close>

definition closed_world :: world where
  "closed_world = demo_world\<lparr>db := False\<rparr>"

text \<open>The same device when the remote store also holds a copy of project 1, which this
  device never tracked, next to project 7, which this device does not hold.\<close>

definition download_world :: world where
  "download_world = demo_world\<lparr>remote_tables :=
     [''projects'' \<mapsto> remote_projects_table
        [[(''id'', VInt 1), (''name'', VStr ''Inbox (shared)''),
          (''created_at'', VStr ''2025-01-01''), (''updated_at'', VStr ''2025-01-02'')],
         [(''id'', VInt 7), (''name'', VStr ''Work''),
          (''created_at'', VStr ''2025-01-01''), (''updated_at'', VStr ''2025-01-02'')]] 7,
      ''tasks'' \<mapsto> remote_tasks_table [] 5]\<rparr>"

text \<open>An environment whose remote store rejects the first request, and a device holding
  two pending changes for tasks that were deleted locally: task 9 has the remote
  identifier 9, task 10 was never uploaded.\<close>

definition rejecting_env :: env where
  "rejecting_env = healthy_env\<lparr>remote_fault :=
     (\<lambda>n. if n = 0 then Some (Exn ''permission denied for table tasks'') else None)\<rparr>"

definition tombstone :: meta where
  "tombstone = \<lparr>table_name = ''tasks'', record_id = 9, sync_status = Pending, supabase_id = Some 9,
       last_modified = 30, created_at = 30, updated_at = 30\<rparr>"

definition local_only_tombstone :: meta where
  "local_only_tombstone = \<lparr>table_name = ''tasks'', record_id = 10, sync_status = Error, supabase_id = None,
       last_modified = 31, created_at = 31, updated_at = 31\<rparr>"

definition tombstone_world :: world where
  "tombstone_world = demo_world\<lparr>
     sync_metadata := Some [tombstone, local_only_tombstone],
     remote_tables :=
       [''projects'' \<mapsto> remote_projects_table [[(''id'', VInt 7), (''name'', VStr ''Work'')]] 7,
        ''tasks'' \<mapsto> remote_tasks_table
           [[(''id'', VInt 9), (''project_id'', VInt 7), (''title'', VStr ''Old task''),
             (''description'', VNull)]] 9]\<rparr>"

text \<open>A device with two pending changes, for projects 1 and 2, neither uploaded before.\<close>

definition first_change :: meta where
  "first_change = \<lparr>table_name = ''projects'', record_id = 1, sync_status = Pending,
     supabase_id = None, last_modified = 30, created_at = 30, updated_at = 30\<rparr>"

definition second_change :: meta where
  "second_change = \<lparr>table_name = ''projects'', record_id = 2, sync_status = Pending,
     supabase_id = None, last_modified = 31, created_at = 31, updated_at = 31\<rparr>"

definition batch_world :: world where
  "batch_world = demo_world\<lparr>sync_metadata := Some [first_change, second_change]\<rparr>"

text \<open>The same device, its handle dropped, after the project named Inbox was deleted.\<close>

definition noinbox_world :: world where
  "noinbox_world = closed_world\<lparr>tables := (tables closed_world)
     (''projects'' \<mapsto> projects_table [[(''id'', VInt 2), (''name'', VStr ''Work'')]] 2)\<rparr>"

text \<open>A device with two pending changes, the older one for a row of \<open>task_tags\<close>, a table
  without an \<open>id\<close> column.\<close>

definition stuck_change :: meta where
  "stuck_change = \<lparr>table_name = ''task_tags'', record_id = 5, sync_status = Pending,
     supabase_id = None, last_modified = 29, created_at = 29, updated_at = 29\<rparr>"

definition stuck_world :: world where
  "stuck_world = demo_world\<lparr>sync_metadata := Some [stuck_change, second_change]\<rparr>"

section \<open>Notions used in the statements\<close>

text \<open>The rows of \<open>sync_metadata\<close>; a table that is not there has none.\<close>

definition meta_rows :: "world \<Rightarrow> meta list" where
  "meta_rows w = (case sync_metadata w of None \<Rightarrow> [] | Some ms \<Rightarrow> ms)"

text \<open>A database that \<open>_initDatabase\<close> finds complete: the four application tables exist
  and a project is named Inbox, so that initialising it again writes to none of them.\<close>

definition installed :: "world \<Rightarrow> bool" where
  "installed w =
     ((case tables w ''projects'' of
         None \<Rightarrow> False
       | Some P \<Rightarrow> ''name'' \<in> set (columns P) \<and>
                   filter (matches [(''name'', VStr ''Inbox'')]) (rows P) \<noteq> []) \<and>
      tables w ''tasks'' \<noteq> None \<and> tables w ''tags'' \<noteq> None \<and> tables w ''task_tags'' \<noteq> None)"

text \<open>The next \<open>initDatabase\<close> yields a handle and leaves the data alone: a handle is held,
  or the database is complete and can be opened.\<close>

definition ready :: "env \<Rightarrow> world \<Rightarrow> bool" where
  "ready e w = (db w \<or> (installed w \<and> open_fault e (opens w) = None))"

text \<open>An operation preserves a property of the state when the property holds after every
  run of the operation that started with it, whether the run returned or threw.\<close>

definition preserves :: "(world \<Rightarrow> bool) \<Rightarrow> 'a io \<Rightarrow> bool" where
  "preserves P m = (\<forall>w r w'. P w \<longrightarrow> m w = (r, w') \<longrightarrow> P w')"

text \<open>An environment whose local database cannot be opened the first five times it is
  tried, and can be opened after that.\<close>

definition flaky_env :: env where
  "flaky_env = healthy_env\<lparr>open_fault :=
     (\<lambda>n. if n < 5 then Some (Exn ''unable to open database file'') else None)\<rparr>"

text \<open>The state in which the \<open>try\<close> block of \<open>sync\<close> starts, for a call that has
  passed the guard.\<close>

definition started :: "world \<Rightarrow> world" where
  "started w = notifyListeners SYNCING ''Starting sync...'' (w\<lparr>syncInProgress := True\<rparr>)"

section \<open>Facts about \<open>initDatabase\<close> and \<open>withRetry\<close>\<close>

lemma initDatabase_open [simp]: "db w \<Longrightarrow> initDatabase e w = (Inr (), w)"
  by (simp add: initDatabase_def)

lemma create_table_existing:
  "tables w t \<noteq> None \<Longrightarrow> create_table t T w = log_op (Sql ''CREATE'' t) w"
  by (auto simp: create_table_def)

text \<open>On a complete database the statements of \<open>_initDatabase\<close> write to no application
  table.\<close>

lemma bootstrap_installed:
  assumes "installed w"
  shows "bootstrap w =
     (Inr (), w\<lparr>trace := trace w @
                  [Sql ''CREATE'' ''projects'', Sql ''CREATE'' ''tasks'', Sql ''CREATE'' ''tags'',
                   Sql ''CREATE'' ''task_tags'', Sql ''CREATE'' ''sync_metadata'',
                   Sql ''CREATE'' ''sync_log'', Sql ''SELECT'' ''projects'',
                   Sql ''SELECT'' ''projects''],
                sync_metadata := Some (meta_rows w),
                sync_log := Some (case sync_log w of None \<Rightarrow> [] | Some l \<Rightarrow> l)\<rparr>)"
proof -
  obtain P T1 T2 T3 where P: "tables w ''projects'' = Some P" and n: "''name'' \<in> set (columns P)"
    and i: "filter (matches [(''name'', VStr ''Inbox'')]) (rows P) \<noteq> []"
    and t: "tables w ''tasks'' = Some T1" "tables w ''tags'' = Some T2"
           "tables w ''task_tags'' = Some T3"
    using assms by (auto simp: installed_def split: option.splits)
  have ne: "rows P \<noteq> []" using i by auto
  have all: "filter (matches []) (rows P) = rows P" by (simp add: matches_def)
  show ?thesis
    using P n i t ne all
    by (simp add: bootstrap_def create_table_def create_sync_tables_def log_op_def meta_rows_def
          bindIO_def sql_select_def local_table_def liftE_def tbl_select_def known_columns_def
          returnIO_def)
qed

lemma initDatabase_installed:
  assumes "installed w" and "initDatabase e w = (r, w')"
  shows "tables w' = tables w \<and> meta_rows w' = meta_rows w \<and>
         (sync_metadata w \<noteq> None \<longrightarrow> sync_metadata w' = sync_metadata w) \<and>
         remote_tables w' = remote_tables w \<and> requests w' = requests w \<and>
         installed w' \<and> (r = Inr () \<longrightarrow> db w') \<and>
         (db w \<or> open_fault e (opens w) = None \<longrightarrow> r = Inr ())"
proof (cases "db w")
  case True
  then show ?thesis using assms by auto
next
  case False
  have "installed (w\<lparr>opens := Suc (opens w)\<rparr>)"
    using assms(1) by (simp add: installed_def)
  note b = bootstrap_installed[OF this]
  show ?thesis
    using False assms b
    by (auto simp: initDatabase_def initDatabase_inner_def installed_def meta_rows_def
          split: option.splits)
qed

lemma initDatabase_ready:
  assumes "ready e w"
  shows "\<exists>w1. initDatabase e w = (Inr (), w1) \<and> db w1 \<and> tables w1 = tables w \<and>
           meta_rows w1 = meta_rows w \<and>
           (sync_metadata w \<noteq> None \<longrightarrow> sync_metadata w1 = sync_metadata w) \<and>
           remote_tables w1 = remote_tables w \<and> requests w1 = requests w"
proof (cases "db w")
  case True
  then show ?thesis by simp
next
  case False
  then have i: "installed w" and o: "open_fault e (opens w) = None"
    using assms by (auto simp: ready_def)
  obtain r w1 where run: "initDatabase e w = (r, w1)" by (cases "initDatabase e w")
  show ?thesis using initDatabase_installed[OF i run] o run by auto
qed

text \<open>An attempt that succeeds is the only attempt.\<close>

lemma withRetry_first:
  "initDatabase e w = (Inr (), w1) \<Longrightarrow> operation w1 = (Inr v, w2)
     \<Longrightarrow> withRetry e operation w = (Inr v, w2)"
  by (simp add: withRetry_def numeral_3_eq_3)

lemma withRetry_unfold:
  "withRetry e operation w =
     (case initDatabase e w of
        (Inl x, w1) \<Rightarrow> retry_loop (Suc (Suc 0)) e operation x (w1\<lparr>db := False\<rparr>)
      | (Inr _, w1) \<Rightarrow>
          (case operation w1 of
             (Inr v, w2) \<Rightarrow> (Inr v, w2)
           | (Inl x, w2) \<Rightarrow> retry_loop (Suc (Suc 0)) e operation x (w2\<lparr>db := False\<rparr>)))"
  by (simp add: withRetry_def numeral_3_eq_3)

section \<open>Properties that operations preserve\<close>

lemma preservesD: "preserves P m \<Longrightarrow> P w \<Longrightarrow> m w = (r, w') \<Longrightarrow> P w'"
  by (auto simp: preserves_def)

lemma preserves_snd: "preserves P m \<Longrightarrow> P w \<Longrightarrow> P (snd (m w))"
  by (cases "m w") (auto simp: preserves_def)

lemma preserves_returnIO: "preserves P (returnIO x)"
  by (simp add: preserves_def returnIO_def)

lemma preserves_throwIO: "preserves P (throwIO x)"
  by (simp add: preserves_def throwIO_def)

lemma preserves_bindIO:
  assumes "preserves P m" and "\<And>x. preserves P (f x)"
  shows "preserves P (bindIO m f)"
  unfolding preserves_def bindIO_def
proof (intro allI impI)
  fix w r w'
  assume P: "P w" and run: "(case m w of (Inl e, w1) \<Rightarrow> (Inl e, w1) | (Inr x, w1) \<Rightarrow> f x w1) = (r, w')"
  obtain a w1 where m: "m w = (a, w1)" by (cases "m w")
  have P1: "P w1" using preservesD[OF assms(1) P m] .
  show "P w'"
  proof (cases a)
    case (Inl x)
    then show ?thesis using run m P1 by simp
  next
    case (Inr x)
    then show ?thesis using run m preservesD[OF assms(2) P1, of x r w'] by simp
  qed
qed

lemma preserves_catchIO:
  assumes "preserves P m" and "\<And>x. preserves P (h x)"
  shows "preserves P (catchIO m h)"
  unfolding preserves_def catchIO_def
proof (intro allI impI)
  fix w r w'
  assume P: "P w" and run: "(case m w of (Inl e, w1) \<Rightarrow> h e w1 | (Inr x, w1) \<Rightarrow> (Inr x, w1)) = (r, w')"
  obtain a w1 where m: "m w = (a, w1)" by (cases "m w")
  have P1: "P w1" using preservesD[OF assms(1) P m] .
  show "P w'"
  proof (cases a)
    case (Inr x)
    then show ?thesis using run m P1 by simp
  next
    case (Inl x)
    then show ?thesis using run m preservesD[OF assms(2) P1, of x r w'] by simp
  qed
qed

lemma preserves_if:
  "preserves P a \<Longrightarrow> preserves P b \<Longrightarrow> preserves P (if c then a else b)"
  by simp

lemma preserves_getDb: "preserves P getDb"
  by (auto simp: preserves_def getDb_def split: if_splits)

text \<open>Statements on the local store, for a property that the trace does not matter to and
  that survives the writing of the table concerned.\<close>

lemma preserves_sql_select:
  assumes "\<And>w x. P w \<Longrightarrow> P (log_op x w)"
  shows "preserves P (sql_select t conds)"
  using assms
  by (auto simp: preserves_def sql_select_def bindIO_def local_table_def liftE_def
        split: option.splits sum.splits)

lemma preserves_sql_first:
  assumes "\<And>w x. P w \<Longrightarrow> P (log_op x w)"
  shows "preserves P (sql_first t conds)"
  unfolding sql_first_def
  by (intro preserves_bindIO preserves_sql_select preserves_returnIO assms)

lemma preserves_sql_table_info:
  assumes "\<And>w x. P w \<Longrightarrow> P (log_op x w)"
  shows "preserves P (sql_table_info t)"
  using assms by (auto simp: preserves_def sql_table_info_def)

lemma preserves_sql_insert_row:
  assumes "\<And>w x. P w \<Longrightarrow> P (log_op x w)" and "\<And>w T. P w \<Longrightarrow> P (store_table t T w)"
  shows "preserves P (sql_insert_row ignore t r)"
  using assms
  by (auto simp: preserves_def sql_insert_row_def bindIO_def local_table_def
        split: option.splits sum.splits prod.splits)

lemma preserves_sql_insert:
  assumes "\<And>w x. P w \<Longrightarrow> P (log_op x w)" and "\<And>w T. P w \<Longrightarrow> P (store_table t T w)"
  shows "preserves P (sql_insert ignore t r)"
  unfolding sql_insert_def
  by (intro preserves_bindIO preserves_sql_insert_row preserves_returnIO assms)

lemma preserves_sql_delete:
  assumes "\<And>w x. P w \<Longrightarrow> P (log_op x w)" and "\<And>w T. P w \<Longrightarrow> P (store_table t T w)"
  shows "preserves P (sql_delete t conds)"
  using assms
  by (auto simp: preserves_def sql_delete_def bindIO_def local_table_def liftE_def
        split: option.splits sum.splits prod.splits)

lemma preserves_sql_update:
  assumes "\<And>w x. P w \<Longrightarrow> P (log_op x w)" and "\<And>w T. P w \<Longrightarrow> P (store_table t T w)"
  shows "preserves P (sql_update t sets conds)"
  using assms
  by (auto simp: preserves_def sql_update_def bindIO_def local_table_def liftE_def
        split: option.splits sum.splits prod.splits)

text \<open>\<open>initDatabase\<close> preserves what the trace, the handle, the creation of tables and the
  writing of the application tables do not matter to.\<close>

lemma preserves_addSampleData:
  assumes l: "\<And>w x. P w \<Longrightarrow> P (log_op x w)" and s: "\<And>w t T. P w \<Longrightarrow> P (store_table t T w)"
  shows "preserves P addSampleData"
  unfolding addSampleData_def
  by (intro preserves_bindIO preserves_if preserves_throwIO preserves_sql_insert_row
        preserves_sql_insert l s)

lemma create_table_stable:
  assumes l: "\<And>w x. P w \<Longrightarrow> P (log_op x w)" and s: "\<And>w t T. P w \<Longrightarrow> P (store_table t T w)"
  shows "P w \<Longrightarrow> P (create_table t T w)"
  by (cases "tables w t") (simp_all add: create_table_def l s)

lemma preserves_bootstrap:
  assumes l: "\<And>w x. P w \<Longrightarrow> P (log_op x w)" and s: "\<And>w t T. P w \<Longrightarrow> P (store_table t T w)"
    and c: "\<And>w. P w \<Longrightarrow> P (create_sync_tables w)"
  shows "preserves P bootstrap"
proof -
  define inbox where "inbox = bindIO (sql_select ''projects'' [(''name'', VStr ''Inbox'')])
       (\<lambda>inboxExists. if length inboxExists = 0
              then sql_insert False ''projects'' [(''name'', VStr ''Inbox'')]
              else returnIO ())"
  define rest where "rest = bindIO (sql_select ''projects'' []) (\<lambda>result.
       if length result = 0 then addSampleData else inbox)"
  have sel: "\<And>t conds. preserves P (sql_select t conds)"
    by (rule preserves_sql_select) (erule l)
  have ins: "\<And>i t r. preserves P (sql_insert i t r)"
    by (rule preserves_sql_insert) (erule l, erule s)
  have add: "preserves P addSampleData"
    by (rule preserves_addSampleData) (erule l, erule s)
  have ct: "\<And>t T v. P v \<Longrightarrow> P (create_table t T v)"
    by (rule create_table_stable) (erule l, erule s, assumption)
  have inbox: "preserves P inbox"
    unfolding inbox_def
    by (rule preserves_bindIO, rule sel, rule preserves_if, rule ins, rule preserves_returnIO)
  have rest: "preserves P rest"
    unfolding rest_def
    by (rule preserves_bindIO, rule sel, rule preserves_if, rule add, rule inbox)
  show ?thesis
    unfolding preserves_def
  proof (intro allI impI)
    fix w r w'
    assume P: "P w" and run: "bootstrap w = (r, w')"
    define w0 where "w0 = create_sync_tables
         (create_table ''task_tags'' (task_tags_table [])
           (create_table ''tags'' (tags_table [] 0)
             (create_table ''tasks'' (tasks_table [] 0)
               (create_table ''projects'' (projects_table [] 0) w))))"
    have P0: "P w0"
      unfolding w0_def by (rule c, rule ct, rule ct, rule ct, rule ct, rule P)
    have "rest w0 = (r, w')"
      using run unfolding bootstrap_def rest_def inbox_def w0_def .
    then show "P w'"
      by (rule preservesD[OF rest P0])
  qed
qed

lemma preserves_initDatabase:
  assumes l: "\<And>w x. P w \<Longrightarrow> P (log_op x w)" and s: "\<And>w t T. P w \<Longrightarrow> P (store_table t T w)"
    and c: "\<And>w. P w \<Longrightarrow> P (create_sync_tables w)"
    and o: "\<And>w k. P w \<Longrightarrow> P (w\<lparr>opens := k\<rparr>)" and d: "\<And>w b. P w \<Longrightarrow> P (w\<lparr>db := b\<rparr>)"
  shows "preserves P (initDatabase e)"
  unfolding preserves_def
proof (intro allI impI)
  fix w r w'
  assume P: "P w" and run: "initDatabase e w = (r, w')"
  show "P w'"
  proof (cases "db w")
    case True
    then show ?thesis using run P by simp
  next
    case False
    show ?thesis
    proof (cases "open_fault e (opens w)")
      case (Some x)
      then show ?thesis using run False d[OF o[OF P]]
        by (auto simp: initDatabase_def initDatabase_inner_def)
    next
      case None
      obtain a w1 where b: "bootstrap (w\<lparr>opens := Suc (opens w)\<rparr>) = (a, w1)"
        by (cases "bootstrap (w\<lparr>opens := Suc (opens w)\<rparr>)")
      have "P w1" using preservesD[OF preserves_bootstrap[of P, OF l s c] o[OF P] b] .
      then show ?thesis using run False None b d
        by (cases a) (auto simp: initDatabase_def initDatabase_inner_def)
    qed
  qed
qed

text \<open>On a complete database, \<open>initDatabase\<close> preserves what depends on the data only.\<close>

lemma preserves_initDatabase_installed:
  assumes i: "\<And>v. P v \<Longrightarrow> installed v"
    and f: "\<And>v v'. P v \<Longrightarrow> tables v' = tables v \<Longrightarrow> meta_rows v' = meta_rows v \<Longrightarrow>
              (sync_metadata v \<noteq> None \<longrightarrow> sync_metadata v' = sync_metadata v) \<Longrightarrow>
              remote_tables v' = remote_tables v \<Longrightarrow> requests v' = requests v \<Longrightarrow> P v'"
  shows "preserves P (initDatabase e)"
  unfolding preserves_def
proof (intro allI impI)
  fix w r w'
  assume P: "P w" and run: "initDatabase e w = (r, w')"
  show "P w'" using initDatabase_installed[OF i[OF P] run] f[OF P, of w'] by blast
qed

lemma initDatabase_handle: "initDatabase e w = (Inr u, w1) \<Longrightarrow> db w1"
  by (auto simp: initDatabase_def initDatabase_inner_def split: if_splits option.splits
        prod.splits sum.splits)

text \<open>What the opening of the database and every failed attempt preserve, and the
  dropping of the handle does not matter to, holds when \<open>withRetry\<close> throws, and held
  before the attempt that returned when \<open>withRetry\<close> returns.\<close>

lemma retry_loop_cases:
  assumes init: "preserves P (initDatabase e)"
    and fail: "\<And>w x w'. P w \<Longrightarrow> operation w = (Inl x, w') \<Longrightarrow> P w'"
    and drop: "\<And>w. P w \<Longrightarrow> P (w\<lparr>db := False\<rparr>)"
  shows "P w \<Longrightarrow> retry_loop k e operation x w = (r, w') \<Longrightarrow>
         (case r of Inl _ \<Rightarrow> P w'
          | Inr v \<Rightarrow> \<exists>w1. P w1 \<and> db w1 \<and> operation w1 = (Inr v, w'))"
proof (induction k arbitrary: w x)
  case 0
  then show ?case by auto
next
  case (Suc k)
  obtain a w1 where i: "initDatabase e w = (a, w1)" by (cases "initDatabase e w")
  have P1: "P w1" using preservesD[OF init Suc.prems(1) i] .
  show ?case
  proof (cases a)
    case (Inl y)
    then show ?thesis using Suc.prems(2) i Suc.IH[OF drop[OF P1]] by simp
  next
    case (Inr u)
    have d1: "db w1" using initDatabase_handle i Inr by blast
    obtain b w2 where o: "operation w1 = (b, w2)" by (cases "operation w1")
    show ?thesis
    proof (cases b)
      case (Inl y)
      have P2: "P w2" using fail[OF P1] o Inl by blast
      show ?thesis using Suc.prems(2) i Inr o Inl Suc.IH[OF drop[OF P2]] by simp
    next
      case r: (Inr v)
      then show ?thesis using Suc.prems(2) i Inr o P1 d1 by auto
    qed
  qed
qed

lemma withRetry_returns:
  assumes init: "preserves P (initDatabase e)"
    and fail: "\<And>w x w'. P w \<Longrightarrow> operation w = (Inl x, w') \<Longrightarrow> P w'"
    and drop: "\<And>w. P w \<Longrightarrow> P (w\<lparr>db := False\<rparr>)"
    and start: "P w" and run: "withRetry e operation w = (Inr v, w')"
  shows "\<exists>w1. P w1 \<and> db w1 \<and> operation w1 = (Inr v, w')"
proof -
  have "case (Inr v :: exn + 'a) of Inl _ \<Rightarrow> P w'
          | Inr v \<Rightarrow> \<exists>w1. P w1 \<and> db w1 \<and> operation w1 = (Inr v, w')"
  proof (rule retry_loop_cases[where P = P and operation = operation and w = w and e = e])
    show "preserves P (initDatabase e)" by (rule init)
    show "\<And>w x w'. P w \<Longrightarrow> operation w = (Inl x, w') \<Longrightarrow> P w'" by (rule fail)
    show "\<And>w. P w \<Longrightarrow> P (w\<lparr>db := False\<rparr>)" by (rule drop)
    show "P w" by (rule start)
    show "retry_loop 3 e operation (Exn ''undefined'') w = (Inr v, w')"
      using run by (simp add: withRetry_def)
  qed
  then show ?thesis by simp
qed

text \<open>What the opening of the database and every attempt preserve holds after
  \<open>withRetry\<close>, whether it returns or throws.\<close>

lemma preserves_withRetry:
  assumes init: "preserves P (initDatabase e)" and step: "preserves P operation"
    and drop: "\<And>w. P w \<Longrightarrow> P (w\<lparr>db := False\<rparr>)"
  shows "preserves P (withRetry e operation)"
  unfolding preserves_def
proof (intro allI impI)
  fix w r w'
  assume P: "P w" and run: "withRetry e operation w = (r, w')"
  have c: "case r of Inl _ \<Rightarrow> P w'
          | Inr v \<Rightarrow> \<exists>w1. P w1 \<and> db w1 \<and> operation w1 = (Inr v, w')"
  proof (rule retry_loop_cases[where P = P and operation = operation and w = w and e = e])
    show "preserves P (initDatabase e)" by (rule init)
    show "\<And>w x w'. P w \<Longrightarrow> operation w = (Inl x, w') \<Longrightarrow> P w'"
      using step by (auto simp: preserves_def)
    show "\<And>w. P w \<Longrightarrow> P (w\<lparr>db := False\<rparr>)" by (rule drop)
    show "P w" by (rule P)
    show "retry_loop 3 e operation (Exn ''undefined'') w = (r, w')"
      using run by (simp add: withRetry_def)
  qed
  show "P w'"
  proof (cases r)
    case (Inl x)
    then show ?thesis using c by simp
  next
    case (Inr v)
    then obtain w1 where "P w1" "operation w1 = (Inr v, w')" using c by auto
    then show ?thesis using preservesD[OF step] by blast
  qed
qed

text \<open>\<open>logSyncOperation\<close> catches the failure of its statement; once the database opens,
  nothing is left to throw.\<close>

lemma logSyncOperation_returns:
  assumes "ready e w"
  shows "\<exists>w'. logSyncOperation e syncType st msg n details w = (Inr (), w')"
proof -
  obtain w1 where i: "initDatabase e w = (Inr (), w1)" and d: "db w1"
    using initDatabase_ready[OF assms] by blast
  show ?thesis unfolding logSyncOperation_def
    using d
    by (cases "sync_log w1")
       (auto intro!: exI withRetry_first[OF i]
          simp: bindIO_def getDb_def catchIO_def returnIO_def)
qed

section \<open>The mutual-exclusion guard of \<open>sync\<close>\<close>

text \<open>
  Claim C2, as amended. A call to \<open>sync\<close> without \<open>force\<close>, made while a pass is in
  flight, returns \<open>{success: false, message: "Sync already in progress"}\<close> and leaves the
  whole state as it was: no statement or request is sent, nothing is published, and
  \<open>syncInProgress\<close> stays set, so the running pass is not disturbed.
\<close>

theorem sync_skips_while_in_progress:
  "syncInProgress w \<Longrightarrow> sync e False w = (Inr (Skipped ''Sync already in progress''), w)"
  by (simp add: sync_def)

theorem sync_skips_while_in_progress_witness:
  "syncInProgress syncing_world \<and>
   sync healthy_env False syncing_world = (Inr (Skipped ''Sync already in progress''), syncing_world)"
proof -
  have h: "syncInProgress syncing_world" by (simp add: syncing_world_def)
  show ?thesis using h sync_skips_while_in_progress[OF h, of healthy_env] by simp
qed

text \<open>
  With \<open>force = true\<close> the guard \<open>syncInProgress && !force\<close> lets the call through while a
  pass is in flight: the call runs a full pass of its own (it reads the pending changes,
  downloads a project, writes the log) and its \<open>finally\<close> block clears \<open>syncInProgress\<close>
  under the pass that was running.
\<close>

theorem forced_sync_runs_while_in_progress:
  "syncInProgress syncing_world \<and>
   fst (sync healthy_env True syncing_world) = Inr (Completed 0 1 100) \<and>
   trace (snd (sync healthy_env True syncing_world)) =
     [Request ''select'' ''projects'', Sql ''SELECT'' ''sync_metadata'',
      Request ''select'' ''projects'', Sql ''SELECT'' ''projects'', Sql ''PRAGMA'' ''projects'',
      Sql ''INSERT'' ''projects'', Sql ''UPDATE'' ''sync_metadata'',
      Request ''select'' ''tasks'', Sql ''INSERT'' ''sync_log''] \<and>
   \<not> syncInProgress (snd (sync healthy_env True syncing_world))"
  by code_simp

section \<open>\<open>checkConnection\<close>\<close>

text \<open>
  Claim C10. \<open>checkConnection\<close> throws "Supabase not configured" when the remote client
  is not configured, and the state is untouched; when it is configured, the call returns
  \<open>false\<close> and clears \<open>isOnline\<close> if the read of the remote \<open>projects\<close> table fails (the
  environment answers an error, or the table is not there), and returns \<open>true\<close> and sets
  \<open>isOnline\<close> if the read succeeds.
\<close>

theorem checkConnection_outcomes:
  "(\<not> configured e \<longrightarrow> checkConnection e w = (Inl (Exn ''Supabase not configured''), w)) \<and>
   (configured e \<and> (remote_fault e (requests w) \<noteq> None \<or> remote_tables w ''projects'' = None) \<longrightarrow>
      fst (checkConnection e w) = Inr False \<and> \<not> isOnline (snd (checkConnection e w))) \<and>
   (configured e \<and> remote_fault e (requests w) = None \<and> remote_tables w ''projects'' \<noteq> None \<longrightarrow>
      fst (checkConnection e w) = Inr True \<and> isOnline (snd (checkConnection e w)))"
  by (auto simp: checkConnection_def request_def Let_def split: option.splits)

theorem checkConnection_outcomes_witness:
  "checkConnection (healthy_env\<lparr>configured := False\<rparr>) demo_world =
     (Inl (Exn ''Supabase not configured''), demo_world) \<and>
   fst (checkConnection offline_env demo_world) = Inr False \<and>
   \<not> isOnline (snd (checkConnection offline_env demo_world)) \<and>
   fst (checkConnection healthy_env demo_world) = Inr True \<and>
   isOnline (snd (checkConnection healthy_env demo_world))"
  using checkConnection_outcomes[of "healthy_env\<lparr>configured := False\<rparr>" demo_world]
    checkConnection_outcomes[of offline_env demo_world]
    checkConnection_outcomes[of healthy_env demo_world]
  by (simp add: healthy_env_def offline_env_def demo_world_def)

section \<open>Re-editing a synced record\<close>

text \<open>
  Claim C1, evaluated on the code. Project 2 was synced and has the remote identifier 7.
  \<open>updateProject(2, "Home")\<close> calls \<open>insertSyncMetadata('projects', 2)\<close>, whose
  \<open>INSERT OR REPLACE\<close> writes the default \<open>supabaseId = null\<close>: the row is \<open>pending\<close>, and
  its remote identifier is gone. The next upload therefore sends an \<open>insert\<close>, not an
  \<open>update\<close>, and the remote store holds the project twice.
\<close>

theorem reedit_drops_remote_id:
  "sync_metadata demo_world = Some
     [\<lparr>table_name = ''projects'', record_id = 2, sync_status = Synced, supabase_id = Some 7,
       last_modified = 10, created_at = 10, updated_at = 20\<rparr>,
      \<lparr>table_name = ''tasks'', record_id = 5, sync_status = Synced, supabase_id = Some 5,
       last_modified = 11, created_at = 11, updated_at = 20\<rparr>] \<and>
   fst (updateProject healthy_env 2 ''Home'' demo_world) = Inr (2, ''Home'') \<and>
   sync_metadata (snd (updateProject healthy_env 2 ''Home'' demo_world)) = Some
     [\<lparr>table_name = ''tasks'', record_id = 5, sync_status = Synced, supabase_id = Some 5,
       last_modified = 11, created_at = 11, updated_at = 20\<rparr>,
      \<lparr>table_name = ''projects'', record_id = 2, sync_status = Pending, supabase_id = None,
       last_modified = 100, created_at = 100, updated_at = 100\<rparr>] \<and>
   trace (snd (uploadToSupabase healthy_env (snd (updateProject healthy_env 2 ''Home'' demo_world)))) =
     [Sql ''UPDATE'' ''projects'', Sql ''INSERT'' ''sync_metadata'',
      Sql ''SELECT'' ''sync_metadata'', Sql ''SELECT'' ''projects'',
      Request ''insert'' ''projects'', Sql ''UPDATE'' ''sync_metadata''] \<and>
   map_option rows (remote_tables (snd (uploadToSupabase healthy_env
       (snd (updateProject healthy_env 2 ''Home'' demo_world)))) ''projects'') = Some
     [[(''id'', VInt 7), (''name'', VStr ''Work'')],
      [(''id'', VInt 8), (''name'', VStr ''Home'')]]"
  by code_simp

section \<open>Metadata after the download phase\<close>

text \<open>
  Claim C5, evaluated on the code. The remote store holds projects 1 and 7; the device has
  project 1 without a metadata row and does not have project 7. The download phase
  updates the one, inserts the other and counts both as downloaded, but
  \<open>updateSyncMetadata\<close> is an \<open>UPDATE\<close>: for neither row does a metadata row exist
  afterwards, and \<open>sync_metadata\<close> is what it was.
\<close>

theorem download_creates_no_metadata:
  "fst (downloadFromSupabase healthy_env download_world) = Inr 2 \<and>
   map_option rows (tables (snd (downloadFromSupabase healthy_env download_world)) ''projects'') = Some
     [[(''id'', VInt 1), (''name'', VStr ''Inbox (shared)'')],
      [(''id'', VInt 2), (''name'', VStr ''Work'')],
      [(''id'', VInt 7), (''name'', VStr ''Work'')]] \<and>
   sync_metadata (snd (downloadFromSupabase healthy_env download_world)) = Some
     [\<lparr>table_name = ''projects'', record_id = 2, sync_status = Synced, supabase_id = Some 7,
       last_modified = 10, created_at = 10, updated_at = 20\<rparr>,
      \<lparr>table_name = ''tasks'', record_id = 5, sync_status = Synced, supabase_id = Some 5,
       last_modified = 11, created_at = 11, updated_at = 20\<rparr>]"
  by code_simp

section \<open>The order of tables in the export\<close>

text \<open>
  Claim C6, evaluated on the code. With \<open>clearSupabaseFirst\<close>, the remote tables are
  cleared dependents first (\<open>tasks\<close>, then \<open>projects\<close>); \<open>reverse()\<close> has reversed
  \<open>SYNC_CONFIG.TABLES\<close> itself, so the export loop that follows also reads and inserts
  \<open>tasks\<close> before \<open>projects\<close>, and the array stays reversed after the call.
\<close>

theorem export_after_clear_runs_in_reverse_order:
  "TABLES demo_world = [''projects'', ''tasks''] \<and>
   map_option (\<lambda>(report, w). (report_success report, trace w, TABLES w))
     (exportAllDataToSupabase healthy_env (default_options\<lparr>clearSupabaseFirst := True\<rparr>) demo_world) =
   Some (True,
     [Request ''select'' ''projects'', Request ''delete'' ''tasks'',
    Request ''delete'' ''projects'', Sql ''SELECT'' ''tasks'',
    Request ''select'' ''tasks'', Request ''insert'' ''tasks'',
    Request ''select'' ''tasks'', Request ''insert'' ''tasks'',
    Request ''select'' ''tasks'', Request ''insert'' ''tasks'',
    Sql ''SELECT'' ''projects'', Request ''select'' ''projects'',
    Request ''insert'' ''projects'', Request ''select'' ''projects'',
    Request ''insert'' ''projects''],
     [''tasks'', ''projects''])"
  by code_simp

section \<open>What \<open>sync\<close> returns and what it throws\<close>

lemma bindIO_Inr:
  "bindIO m f w = (Inr r, w') \<longleftrightarrow> (\<exists>x w1. m w = (Inr x, w1) \<and> f x w1 = (Inr r, w'))"
  by (cases "m w") (auto simp: bindIO_def split: sum.splits)

lemma bindIO_InrE:
  assumes "bindIO m f w = (Inr r, w')"
  obtains x w1 where "m w = (Inr x, w1)" and "f x w1 = (Inr r, w')"
  using assms by (auto simp: bindIO_Inr)

lemma sync_try_completes:
  assumes "sync_try e w = (Inr r, w')"
  shows "success r"
proof -
  from assms[unfolded sync_try_def] obtain c w1 where
    "(if \<not> c then throwIO (Exn ''No internet connection or Supabase unavailable'')
       else
         bindIO (\<lambda>w. (Inr (), notifyListeners SYNCING ''Uploading changes...'' w)) (\<lambda>_.
         bindIO (uploadToSupabase e) (\<lambda>uploadedCount.
         bindIO (\<lambda>w. (Inr (), notifyListeners SYNCING ''Downloading changes...'' w)) (\<lambda>_.
         bindIO (downloadFromSupabase e) (\<lambda>downloadedCount.
         bindIO (\<lambda>w. (Inr (), w\<lparr>lastSyncTime := Some (now e)\<rparr>)) (\<lambda>_.
         bindIO (logSyncOperation e ''full_sync'' ''success''
                   (''Sync completed successfully. Uploaded: '' @ show_nat uploadedCount @
                    '', Downloaded: '' @ show_nat downloadedCount)
                   (uploadedCount + downloadedCount) None) (\<lambda>_.
         bindIO (\<lambda>w. (Inr (), notifyListeners SUCCESS
                   (''Sync completed. Uploaded: '' @ show_nat uploadedCount @
                    '', Downloaded: '' @ show_nat downloadedCount) w)) (\<lambda>_.
         returnIO (Completed uploadedCount downloadedCount (now e)))))))))) w1 = (Inr r, w')"
    by (rule bindIO_InrE)
  then have "c" and "bindIO (\<lambda>w. (Inr (), notifyListeners SYNCING ''Uploading changes...'' w)) (\<lambda>_.
         bindIO (uploadToSupabase e) (\<lambda>uploadedCount.
         bindIO (\<lambda>w. (Inr (), notifyListeners SYNCING ''Downloading changes...'' w)) (\<lambda>_.
         bindIO (downloadFromSupabase e) (\<lambda>downloadedCount.
         bindIO (\<lambda>w. (Inr (), w\<lparr>lastSyncTime := Some (now e)\<rparr>)) (\<lambda>_.
         bindIO (logSyncOperation e ''full_sync'' ''success''
                   (''Sync completed successfully. Uploaded: '' @ show_nat uploadedCount @
                    '', Downloaded: '' @ show_nat downloadedCount)
                   (uploadedCount + downloadedCount) None) (\<lambda>_.
         bindIO (\<lambda>w. (Inr (), notifyListeners SUCCESS
                   (''Sync completed. Uploaded: '' @ show_nat uploadedCount @
                    '', Downloaded: '' @ show_nat downloadedCount) w)) (\<lambda>_.
         returnIO (Completed uploadedCount downloadedCount (now e))))))))) w1 = (Inr r, w')"
    by (cases c; simp add: throwIO_def)+
  then obtain u d w7 where "returnIO (Completed u d (now e)) w7 = (Inr r, w')"
    by (elim bindIO_InrE)
  then show ?thesis by (auto simp: returnIO_def)
qed

lemma ready_frame:
  "ready e w \<Longrightarrow> db w' = db w \<Longrightarrow> opens w' = opens w \<Longrightarrow> tables w' = tables w \<Longrightarrow> ready e w'"
  by (simp add: ready_def installed_def)

lemma sync_catch_returns:
  assumes "ready e w"
  shows "\<exists>w'. sync_catch e x w = (Inr (Failed (message x)), w')"
proof -
  obtain w1 where "logSyncOperation e ''full_sync'' ''error'' (''Sync failed: '' @ message x) 0
               (Some (message x)) w = (Inr (), w1)"
    using logSyncOperation_returns[OF assms] by blast
  then show ?thesis by (simp add: sync_catch_def bindIO_def returnIO_def)
qed

lemma sync_unfold:
  "force \<or> \<not> syncInProgress w \<Longrightarrow>
   sync e force w =
     (case sync_try e (started w) of
        (Inl x, w1) \<Rightarrow> (case sync_catch e x w1 of (res, w2) \<Rightarrow> (res, w2\<lparr>syncInProgress := False\<rparr>))
      | (Inr r, w1) \<Rightarrow> (Inr r, w1\<lparr>syncInProgress := False\<rparr>))"
  by (auto simp: sync_def started_def catchIO_def split: prod.splits sum.splits)

lemma sync_after_failure:
  assumes "force \<or> \<not> syncInProgress w" and "sync_try e (started w) = (Inl x, w1)"
    and "ready e w1"
  shows "fst (sync e force w) = Inr (Failed (message x))"
proof -
  obtain w2 where "sync_catch e x w1 = (Inr (Failed (message x)), w2)"
    using sync_catch_returns[OF assms(3)] by blast
  then show ?thesis using assms(1,2) by (simp add: sync_unfold)
qed

text \<open>
  Claim C7, as amended, for a call that passes the guard (\<open>force\<close>, or no pass in
  flight). A failure path resolves to \<open>{success: false, error}\<close> whenever the local
  database is open, or complete and openable, at the time the \<open>catch\<close> block logs the
  failure: an unconfigured remote with the error "Supabase not configured", a failed
  connectivity check with "No internet connection or Supabase unavailable", and any
  exception thrown in the \<open>try\<close> block (a crash of a phase, a failure of the logging)
  with the message of that exception. A pass whose \<open>try\<close> block completes returns
  its result, which has \<open>success: true\<close>. In every case, returning or throwing, the
  \<open>finally\<close> block clears \<open>syncInProgress\<close>.
\<close>

theorem sync_resolves_failures:
  assumes "force \<or> \<not> syncInProgress w"
  shows
   "(\<not> configured e \<and> ready e w \<longrightarrow>
       fst (sync e force w) = Inr (Failed ''Supabase not configured'')) \<and>
    (configured e \<and> (remote_fault e (requests w) \<noteq> None \<or> remote_tables w ''projects'' = None) \<and>
     ready e w \<longrightarrow>
       fst (sync e force w) = Inr (Failed ''No internet connection or Supabase unavailable'')) \<and>
    (\<forall>x w1. sync_try e (started w) = (Inl x, w1) \<and> ready e w1 \<longrightarrow>
       fst (sync e force w) = Inr (Failed (message x))) \<and>
    (\<forall>r w1. sync_try e (started w) = (Inr r, w1) \<longrightarrow>
       sync e force w = (Inr r, w1\<lparr>syncInProgress := False\<rparr>) \<and> success r) \<and>
    \<not> syncInProgress (snd (sync e force w))"
proof (intro conjI impI allI)
  assume h: "\<not> configured e \<and> ready e w"
  have t: "sync_try e (started w) = (Inl (Exn ''Supabase not configured''), started w)"
    using h by (simp add: sync_try_def bindIO_def checkConnection_def)
  have "ready e (started w)"
    using h by (auto intro: ready_frame simp: started_def notifyListeners_def)
  from sync_after_failure[OF assms t this]
  show "fst (sync e force w) = Inr (Failed ''Supabase not configured'')" by simp
next
  assume h: "configured e \<and>
     (remote_fault e (requests w) \<noteq> None \<or> remote_tables w ''projects'' = None) \<and> ready e w"
  have "\<exists>w1. checkConnection e (started w) = (Inr False, w1) \<and>
          db w1 = db w \<and> opens w1 = opens w \<and> tables w1 = tables w"
  proof (cases "remote_fault e (requests w)")
    case None
    then have "remote_tables w ''projects'' = None" using h by simp
    then show ?thesis using h None
      by (simp add: checkConnection_def request_def Let_def started_def notifyListeners_def
            log_op_def)
  next
    case (Some y)
    then show ?thesis using h
      by (simp add: checkConnection_def request_def Let_def started_def notifyListeners_def
            log_op_def)
  qed
  then obtain w1 where c: "checkConnection e (started w) = (Inr False, w1)"
    and f: "db w1 = db w" "opens w1 = opens w" "tables w1 = tables w"
    by blast
  have t: "sync_try e (started w) =
      (Inl (Exn ''No internet connection or Supabase unavailable''), w1)"
    using c by (simp add: sync_try_def bindIO_def throwIO_def)
  have "ready e w1" using h f by (auto intro: ready_frame)
  from sync_after_failure[OF assms t this]
  show "fst (sync e force w) = Inr (Failed ''No internet connection or Supabase unavailable'')"
    by simp
next
  fix x w1
  assume "sync_try e (started w) = (Inl x, w1) \<and> ready e w1"
  then show "fst (sync e force w) = Inr (Failed (message x))"
    using sync_after_failure[OF assms] by blast
next
  fix r w1
  assume t: "sync_try e (started w) = (Inr r, w1)"
  show "sync e force w = (Inr r, w1\<lparr>syncInProgress := False\<rparr>)"
    using assms t by (simp add: sync_unfold)
  show "success r" using sync_try_completes[OF t] .
next
  show "\<not> syncInProgress (snd (sync e force w))"
    using assms by (auto simp: sync_unfold split: prod.splits sum.splits)
qed


theorem sync_resolves_failures_witness:
  "ready (healthy_env\<lparr>configured := False\<rparr>) closed_world \<and>
   fst (sync (healthy_env\<lparr>configured := False\<rparr>) False closed_world) =
     Inr (Failed ''Supabase not configured'') \<and>
   ready offline_env closed_world \<and> remote_fault offline_env (requests closed_world) \<noteq> None \<and>
   fst (sync offline_env False closed_world) =
     Inr (Failed ''No internet connection or Supabase unavailable'') \<and>
   fst (sync_try flaky_env (started stuck_world)) = Inl (Exn ''unable to open database file'') \<and>
   ready flaky_env (snd (sync_try flaky_env (started stuck_world))) \<and>
   fst (sync flaky_env False stuck_world) = Inr (Failed ''unable to open database file'') \<and>
   fst (sync_try healthy_env (started demo_world)) = Inr (Completed 0 1 100) \<and>
   fst (sync healthy_env False demo_world) = Inr (Completed 0 1 100) \<and>
   \<not> syncInProgress (snd (sync healthy_env False demo_world))"
proof -
  have g: "\<And>b. b \<or> \<not> syncInProgress closed_world" "\<And>b. b \<or> \<not> syncInProgress stuck_world"
    "\<And>b. b \<or> \<not> syncInProgress demo_world"
    by (simp_all add: closed_world_def stuck_world_def demo_world_def)
  have r1: "ready (healthy_env\<lparr>configured := False\<rparr>) closed_world" by code_simp
  have c1: "\<not> configured (healthy_env\<lparr>configured := False\<rparr>)" by simp
  have r2: "ready offline_env closed_world" by code_simp
  have c2: "configured offline_env" "remote_fault offline_env (requests closed_world) \<noteq> None"
    by (simp_all add: offline_env_def healthy_env_def)
  have t3: "fst (sync_try flaky_env (started stuck_world)) = Inl (Exn ''unable to open database file'')"
    by code_simp
  have r3: "ready flaky_env (snd (sync_try flaky_env (started stuck_world)))" by code_simp
  have p3: "sync_try flaky_env (started stuck_world) =
      (Inl (Exn ''unable to open database file''), snd (sync_try flaky_env (started stuck_world)))"
    using t3 by (metis prod.collapse)
  have t4: "fst (sync_try healthy_env (started demo_world)) = Inr (Completed 0 1 100)"
    by code_simp
  have p4: "sync_try healthy_env (started demo_world) =
      (Inr (Completed 0 1 100), snd (sync_try healthy_env (started demo_world)))"
    using t4 by (metis prod.collapse)
  have a1: "fst (sync (healthy_env\<lparr>configured := False\<rparr>) False closed_world) =
     Inr (Failed ''Supabase not configured'')"
    using sync_resolves_failures[OF g(1), where e = "healthy_env\<lparr>configured := False\<rparr>"
        and force = False] r1 c1 by blast
  have a2: "fst (sync offline_env False closed_world) =
     Inr (Failed ''No internet connection or Supabase unavailable'')"
    using sync_resolves_failures[OF g(1), where e = offline_env and force = False] r2 c2
    by blast
  have "fst (sync flaky_env False stuck_world) =
     Inr (Failed (message (Exn ''unable to open database file'')))"
    using sync_resolves_failures[OF g(2), where e = flaky_env and force = False] r3 p3
    by blast
  then have a3: "fst (sync flaky_env False stuck_world) =
     Inr (Failed ''unable to open database file'')" by simp
  have "sync healthy_env False demo_world =
      (Inr (Completed 0 1 100),
       (snd (sync_try healthy_env (started demo_world)))\<lparr>syncInProgress := False\<rparr>)"
    using sync_resolves_failures[OF g(3), where e = healthy_env and force = False] p4
    by blast
  then have a4: "fst (sync healthy_env False demo_world) = Inr (Completed 0 1 100)"
    "\<not> syncInProgress (snd (sync healthy_env False demo_world))"
    by simp_all
  show ?thesis
    using r1 r2 c2 t3 r3 t4 a1 a2 a3 a4 by blast
qed

text \<open>
  When the local database cannot be opened, \<open>logSyncOperation\<close> throws out of the
  \<open>catch\<close> block after its three attempts, and \<open>sync\<close> rejects with that error instead of
  returning a result; the \<open>finally\<close> block still clears \<open>syncInProgress\<close>.
\<close>

theorem sync_throws_when_database_cannot_open:
  "fst (sync unopenable_env False closed_world) = Inl (Exn ''unable to open database file'') \<and>
   \<not> syncInProgress (snd (sync unopenable_env False closed_world))"
  by code_simp

end
